theory Spec2Isabelle
  imports Complex_Main
begin

section \<open>JavaScript values\<close>

text \<open>
  A JavaScript number is NaN, an infinity or a finite value. The two zeroes are one value
  here: the module only tests a number for truthiness, compares it with 0 and negates it,
  and both zeroes are falsy and compare equal to 0.
\<close>

datatype jsnum = NaN | NegInf | Fin real | PosInf

text \<open>
  The values an argument or an option may hold. \<open>Object\<close> stands for any object, array
  or function: it is truthy, and neither a number nor a string.
\<close>

datatype jsval = Undefined | Null | Boolean bool | Number jsnum | Str string | Object

text \<open>ToBoolean: what \<open>!x\<close> and \<open>x || d\<close> test.\<close>

fun truthy :: "jsval \<Rightarrow> bool" where
  "truthy Undefined = False"
| "truthy Null = False"
| "truthy (Boolean b) = b"
| "truthy (Number NaN) = False"
| "truthy (Number (Fin r)) = (r \<noteq> 0)"
| "truthy (Number NegInf) = True"
| "truthy (Number PosInf) = True"
| "truthy (Str s) = (s \<noteq> [])"
| "truthy Object = True"

text \<open>\<open>x || d\<close>\<close>

definition orDefault :: "jsval \<Rightarrow> jsval \<Rightarrow> jsval" where
  "orDefault x d = (if truthy x then x else d)"

text \<open>\<open>n <= 0\<close> on numbers: false for NaN.\<close>

fun lessEqZero :: "jsnum \<Rightarrow> bool" where
  "lessEqZero NaN = False"
| "lessEqZero NegInf = True"
| "lessEqZero (Fin r) = (r \<le> 0)"
| "lessEqZero PosInf = False"

text \<open>Unary minus.\<close>

fun negate :: "jsnum \<Rightarrow> jsnum" where
  "negate NaN = NaN"
| "negate NegInf = PosInf"
| "negate (Fin r) = Fin (- r)"
| "negate PosInf = NegInf"

text \<open>
  The global \<open>isNaN\<close>, on what \<open>coords[0]\<close> can be when it is not an array: a
  number, or \<open>undefined\<close> (\<open>None\<close>) when there is no first element. \<open>isNaN\<close>
  converts its argument to a number first, and \<open>undefined\<close> converts to NaN.
\<close>

fun isNaN :: "jsnum option \<Rightarrow> bool" where
  "isNaN None = True"
| "isNaN (Some n) = (n = NaN)"

section \<open>GeoJSON\<close>

text \<open>
  A coordinates value is a number or an array of coordinates values: a position is
  \<open>Arr [Num x, Num y]\<close>, a ring an array of positions, and so on to any depth.
\<close>

datatype coords = Num jsnum | Arr "coords list"

datatype geomType = Point | MultiPoint | LineString | MultiLineString | Polygon | MultiPolygon

datatype geometry = Geom geomType coords | GeometryCollection "geometry list"

type_synonym props = "(string \<times> jsval) list"

text \<open>
  A feature's \<open>properties\<close> member is an object or \<open>null\<close>, and so is its \<open>geometry\<close>
  member (\<open>None\<close> for \<open>null\<close>).
\<close>

record feature =
  properties :: "props option"
  geometry :: "geometry option"

datatype geojson = Feature feature | Geometry geometry | FeatureCollection "geojson list"

text \<open>
  What \<open>bufferFeature\<close> may be handed: a GeoJSON object, or the function
  \<open>helpers.feature\<close> itself.
\<close>

datatype jsobject = GeoJSON geojson | HelpersFeature

text \<open>
  The exceptions of the module, in the order of its \<open>throw\<close> statements:
  "geojson is required", "options must be an object", "steps must be a number",
  "endCapStyle must be 'flat', 'round' or 'square'",
  "joinStyle must be 'round', 'mitre' or 'bevel'", "mitreLimit must be a number",
  "radius is required", "steps must be greater than 0"; the TypeError of reading a member
  of \<open>null\<close> or \<open>undefined\<close>; and an exception that a call into a library raised, with
  its message.
\<close>

datatype error =
    GeojsonRequired
  | OptionsNotObject
  | StepsNotNumber
  | EndCapStyleInvalid
  | JoinStyleInvalid
  | MitreLimitNotNumber
  | RadiusRequired
  | StepsNotPositive
  | TypeError
  | LibraryError string

section \<open>The libraries\<close>

text \<open>
  A d3-geo projection: the function itself and its \<open>invert\<close> method, both from a position
  to a position.
\<close>

record projection =
  forward :: "coords \<Rightarrow> coords"
  invert :: "coords \<Rightarrow> coords"

text \<open>
  A JSTS geometry is opaque to the module, which only passes it on; it stands here as the
  GeoJSON type and coordinates that it was read from.
\<close>

type_synonym jstsGeometry = "geomType \<times> coords"

text \<open>
  The computations that the module delegates to its dependencies are parameters of the
  model. Each call either returns or raises an exception (\<open>Inl\<close>, with the message):
  \<^item> \<open>center\<close>: the two coordinates of \<open>center(geojson).geometry.coordinates\<close>, for the
    object that \<open>defineProjection\<close> is given;
  \<^item> \<open>geoAzimuthalEquidistant\<close>: the projection
    \<open>d3Geo.geoAzimuthalEquidistant().rotate(rotation).scale(helpers.earthRadius)\<close> for a
    rotation;
  \<^item> \<open>readGeoJSON\<close>: \<open>new turfJsts.GeoJSONReader().read(projected)\<close>;
  \<^item> \<open>lengthToMeters\<close>:
    \<open>helpers.radiansToLength(helpers.lengthToRadians(radius, units), "meters")\<close>;
  \<^item> \<open>bufferOp\<close>: the JSTS buffer operation on the geometry that was read, with its
    quadrant segments, end cap style, join style and mitre limit set, at a distance, and
    the writing of its result as GeoJSON.
\<close>

record library =
  center :: "jsobject \<Rightarrow> string + jsnum \<times> jsnum"
  geoAzimuthalEquidistant :: "jsnum \<times> jsnum \<Rightarrow> projection"
  readGeoJSON :: "geomType \<times> coords \<Rightarrow> string + jstsGeometry"
  lengthToMeters :: "jsval \<Rightarrow> jsval \<Rightarrow> string + jsnum"
  bufferOp :: "jstsGeometry \<Rightarrow> jsnum \<Rightarrow> nat \<Rightarrow> nat \<Rightarrow> jsnum \<Rightarrow> jsnum \<Rightarrow> string + geomType \<times> coords"

text \<open>
  The iterators and constructors of @turf/meta and @turf/helpers are not part of the
  module either; they are written out as the libraries document them.

  \<open>meta.geomEach\<close> on a geometry, or on a feature with that geometry: the geometries its
  callback receives, in order. A geometry that is no collection is visited itself; of a
  collection the members are visited, and a member that is a collection again is replaced
  by its own members (one level only).
\<close>

fun geomEach :: "geometry \<Rightarrow> geometry list" where
  "geomEach (Geom t c) = [Geom t c]"
| "geomEach (GeometryCollection gs) =
     concat (map (\<lambda>g. case g of GeometryCollection ms \<Rightarrow> ms | Geom t c \<Rightarrow> [Geom t c]) gs)"

text \<open>
  \<open>meta.featureEach\<close>: a feature is visited itself, of a feature collection the
  members; any other object is not visited.
\<close>

fun featureEach :: "geojson \<Rightarrow> geojson list" where
  "featureEach (Feature f) = [Feature f]"
| "featureEach (FeatureCollection fs) = fs"
| "featureEach (Geometry g) = []"

text \<open>\<open>helpers.feature(geometry, properties)\<close> and \<open>helpers.featureCollection(features)\<close>\<close>

definition helpers_feature :: "geometry \<Rightarrow> props \<Rightarrow> geojson" where
  "helpers_feature g p = Feature \<lparr>properties = Some p, geometry = Some g\<rparr>"

definition helpers_featureCollection :: "geojson list \<Rightarrow> geojson" where
  "helpers_featureCollection fs = FeatureCollection fs"

section \<open>Coordinates\<close>

text \<open>
  \<open>coordsIsNaN\<close>: \<open>coords[0]\<close> of an empty array, and of a number, is \<open>undefined\<close>.
\<close>

fun coordsIsNaN :: "coords \<Rightarrow> bool" where
  "coordsIsNaN (Arr (Arr cs # rest)) = coordsIsNaN (Arr cs)"
| "coordsIsNaN (Arr (Num n # rest)) = isNaN (Some n)"
| "coordsIsNaN (Arr []) = isNaN None"
| "coordsIsNaN (Num n) = isNaN None"

text \<open>
  \<open>projectCoords\<close> and \<open>unprojectCoords\<close>: \<open>typeof coords[0]\<close> is \<open>"object"\<close> when the
  first element is an array; then every element is mapped. Otherwise the projection is
  applied to \<open>coords\<close> as it is.
\<close>

fun projectCoords :: "coords \<Rightarrow> projection \<Rightarrow> coords" where
  "projectCoords (Arr (Arr cs # rest)) proj =
     Arr (map (\<lambda>coord. projectCoords coord proj) (Arr cs # rest))"
| "projectCoords coords proj = forward proj coords"

fun unprojectCoords :: "coords \<Rightarrow> projection \<Rightarrow> coords" where
  "unprojectCoords (Arr (Arr cs # rest)) proj =
     Arr (map (\<lambda>coord. unprojectCoords coord proj) (Arr cs # rest))"
| "unprojectCoords coords proj = invert proj coords"

text \<open>
  \<open>defineProjection\<close>: the rotation is the negated centre that the library gives for the
  object.
\<close>

definition defineProjection :: "library \<Rightarrow> jsobject \<Rightarrow> string + projection" where
  "defineProjection lib geojson =
     (case center lib geojson of
        Inl msg \<Rightarrow> Inl msg
      | Inr coords \<Rightarrow>
          (let rotation = (negate (fst coords), negate (snd coords))
           in Inr (geoAzimuthalEquidistant lib rotation)))"

section \<open>Buffering one feature or geometry\<close>

text \<open>
  \<open>geojson.properties || {}\<close>: only a feature has properties, and \<open>null\<close> is falsy.
\<close>

fun propertiesOrEmpty :: "jsobject \<Rightarrow> props" where
  "propertiesOrEmpty (GeoJSON (Feature f)) = (case properties f of Some p \<Rightarrow> p | None \<Rightarrow> [])"
| "propertiesOrEmpty obj = []"

text \<open>
  \<open>geojson.type === "Feature" ? geojson.geometry : geojson\<close>: the geometry of a feature,
  which may be \<open>null\<close> (\<open>None\<close>), and any other object itself.
\<close>

fun geometryOf :: "jsobject \<Rightarrow> jsobject option" where
  "geometryOf (GeoJSON (Feature f)) =
     (case geometry f of None \<Rightarrow> None | Some g \<Rightarrow> Some (GeoJSON (Geometry g)))"
| "geometryOf obj = Some obj"

text \<open>
  Whether \<open>geometry.type === "GeometryCollection"\<close>, with the member geometries; and
  \<open>geometry.type\<close> with \<open>geometry.coordinates\<close>, which is \<open>undefined\<close> (\<open>None\<close>) for an
  object that is no geometry: a feature collection, or the function \<open>helpers.feature\<close>.
\<close>

fun collectionOf :: "jsobject \<Rightarrow> geometry list option" where
  "collectionOf (GeoJSON (Geometry (GeometryCollection gs))) = Some gs"
| "collectionOf obj = None"

fun coordinatesOf :: "jsobject \<Rightarrow> (geomType \<times> coords) option" where
  "coordinatesOf (GeoJSON (Geometry (Geom t coordinates))) = Some (t, coordinates)"
| "coordinatesOf obj = None"

text \<open>
  A loop whose callback is \<open>if (buffered) results.push(buffered)\<close>, over the values
  that \<open>bufferFeature\<close> gave for the visited members: the first exception ends the loop
  and the call, \<open>undefined\<close> is not pushed.
\<close>

fun pushEach :: "(error + geojson option) list \<Rightarrow> error + geojson list" where
  "pushEach [] = Inr []"
| "pushEach (Inl e # rest) = Inl e"
| "pushEach (Inr buffered # rest) =
     (case pushEach rest of
        Inl e \<Rightarrow> Inl e
      | Inr results \<Rightarrow> Inr (case buffered of None \<Rightarrow> results | Some b \<Rightarrow> b # results))"

lemma member_size: "m \<in> set gs \<Longrightarrow> size (m::geometry) \<le> size_list size gs"
  by (erule size_list_estimation') simp

lemma geomEach_smaller: "g \<in> set (geomEach (GeometryCollection gs)) \<Longrightarrow> size g < size (GeometryCollection gs)"
proof -
  assume "g \<in> set (geomEach (GeometryCollection gs))"
  then obtain m where m: "m \<in> set gs"
    and gm: "g \<in> set (case m of GeometryCollection ms \<Rightarrow> ms | Geom t c \<Rightarrow> [Geom t c])"
    by auto
  have "size g \<le> size m"
  proof (cases m)
    case (Geom t c)
    then show ?thesis using gm by simp
  next
    case (GeometryCollection ms)
    then have "size g \<le> size_list size ms" using gm by (simp add: member_size)
    then show ?thesis using GeometryCollection by simp
  qed
  moreover have "size m \<le> size_list size gs" using m by (rule member_size)
  ultimately show ?thesis by simp
qed

lemma collectionOf_Some: "collectionOf obj = Some gs \<Longrightarrow> obj = GeoJSON (Geometry (GeometryCollection gs))"
  by (induction obj rule: collectionOf.induct) simp_all

text \<open>The size of the geometry that \<open>bufferFeature\<close> works on.\<close>

fun geometrySize :: "jsobject \<Rightarrow> nat" where
  "geometrySize (GeoJSON (Geometry g)) = size g"
| "geometrySize (GeoJSON (Feature f)) = (case geometry f of None \<Rightarrow> 0 | Some g \<Rightarrow> size g)"
| "geometrySize obj = 0"

lemma geometrySize_geometryOf: "geometryOf obj = Some g \<Longrightarrow> geometrySize g = geometrySize obj"
  by (induction obj rule: geometryOf.induct) (auto split: option.splits)

text \<open>
  \<open>bufferFeature\<close>. Its result is \<open>Inr None\<close> for \<open>undefined\<close>. Reading \<open>geometry.type\<close>
  of a \<open>null\<close> geometry raises a TypeError, and so does \<open>projectCoords\<close> when it reads
  \<open>coords[0]\<close> of the \<open>undefined\<close> coordinates of an object that is no geometry, if
  \<open>center\<close> has returned for that object. An exception of a library call ends the call.
\<close>

function bufferFeature ::
  "library \<Rightarrow> jsobject \<Rightarrow> jsval \<Rightarrow> jsval \<Rightarrow> jsnum \<Rightarrow> nat \<Rightarrow> nat \<Rightarrow> jsnum \<Rightarrow> error + geojson option"
where
  "bufferFeature lib geojson radius units steps endCapStyle joinStyle mitreLimit =
     (let properties = propertiesOrEmpty geojson in
      case geometryOf geojson of
        None \<Rightarrow> Inl TypeError
      | Some geom \<Rightarrow>
          (case collectionOf geom of
             Some gs \<Rightarrow>
               (case pushEach
                       (map (\<lambda>geometry.
                               bufferFeature lib (GeoJSON (Geometry geometry)) radius units steps
                                 endCapStyle joinStyle mitreLimit)
                          (geomEach (GeometryCollection gs))) of
                  Inl e \<Rightarrow> Inl e
                | Inr results \<Rightarrow> Inr (Some (helpers_featureCollection results)))
           | None \<Rightarrow>
               (case defineProjection lib geom of
                  Inl msg \<Rightarrow> Inl (LibraryError msg)
                | Inr projection \<Rightarrow>
                    (case coordinatesOf geom of
                       None \<Rightarrow> Inl TypeError
                     | Some (t, coordinates) \<Rightarrow>
                         (case readGeoJSON lib (t, projectCoords coordinates projection) of
                            Inl msg \<Rightarrow> Inl (LibraryError msg)
                          | Inr jsts \<Rightarrow>
                              (case lengthToMeters lib radius units of
                                 Inl msg \<Rightarrow> Inl (LibraryError msg)
                               | Inr distance \<Rightarrow>
                                   (case bufferOp lib jsts steps endCapStyle joinStyle mitreLimit
                                           distance of
                                      Inl msg \<Rightarrow> Inl (LibraryError msg)
                                    | Inr buffered \<Rightarrow>
                                        if coordsIsNaN (snd buffered) then Inr None
                                        else
                                          (let result = Geom (fst buffered)
                                                 (unprojectCoords (snd buffered) projection)
                                           in Inr (Some (helpers_feature result properties))))))))))"
  by pat_completeness auto
termination
proof (relation "measure (\<lambda>(lib, geojson, rest). geometrySize geojson)")
  show "wf (measure (\<lambda>(lib, geojson, rest). geometrySize geojson))" by simp
next
  fix lib geojson radius units steps endCapStyle joinStyle mitreLimit x geom gs g
  assume "geometryOf geojson = Some geom" and "collectionOf geom = Some gs"
    and "g \<in> set (geomEach (GeometryCollection gs))"
  then have "size g < geometrySize geojson"
    using geomEach_smaller [of g gs] collectionOf_Some [of geom gs]
      geometrySize_geometryOf [of geojson geom]
    by simp
  then show "((lib, GeoJSON (Geometry g), radius, units, steps, endCapStyle, joinStyle, mitreLimit),
              (lib, geojson, radius, units, steps, endCapStyle, joinStyle, mitreLimit))
             \<in> measure (\<lambda>(lib, geojson, rest). geometrySize geojson)"
    by simp
qed

section \<open>The entry point\<close>

text \<open>
  The \<open>options\<close> argument is an object with its members, \<open>Undefined\<close> where one
  is absent; or a falsy value (\<open>undefined\<close> when the argument is left out, \<open>null\<close>),
  which \<open>options || {}\<close> replaces by an empty object; or a truthy value that is no object
  (a string, a number, \<open>true\<close>), which stays, and whose members all read as
  \<open>undefined\<close>.
\<close>

record options =
  units :: jsval
  steps :: jsval
  endCapStyle :: jsval
  joinStyle :: jsval
  mitreLimit :: jsval

datatype optionsArg = NoOptions | NotAnObject | Options options

definition emptyObject :: options where
  "emptyObject =
     \<lparr>units = Undefined, steps = Undefined, endCapStyle = Undefined, joinStyle = Undefined,
      mitreLimit = Undefined\<rparr>"

fun members :: "optionsArg \<Rightarrow> options" where
  "members (Options opts) = opts"
| "members NoOptions = emptyObject"
| "members NotAnObject = emptyObject"

text \<open>The two \<open>switch\<close> statements: the code of a style, \<open>None\<close> in the default case.\<close>

definition endCapStyleCode :: "jsval \<Rightarrow> nat option" where
  "endCapStyleCode v =
     (if v = Str ''round'' then Some 1
      else if v = Str ''flat'' then Some 2
      else if v = Str ''square'' then Some 3
      else None)"

definition joinStyleCode :: "jsval \<Rightarrow> nat option" where
  "joinStyleCode v =
     (if v = Str ''round'' then Some 1
      else if v = Str ''mitre'' then Some 2
      else if v = Str ''bevel'' then Some 3
      else None)"

text \<open>
  The loop of the feature collection case: every feature of \<open>multiBuffered\<close> is pushed,
  and \<open>undefined\<close> has none.
\<close>

fun pushFeatures :: "(error + geojson option) list \<Rightarrow> error + geojson list" where
  "pushFeatures [] = Inr []"
| "pushFeatures (Inl e # rest) = Inl e"
| "pushFeatures (Inr multiBuffered # rest) =
     (case pushFeatures rest of
        Inl e \<Rightarrow> Inl e
      | Inr results \<Rightarrow>
          Inr ((case multiBuffered of None \<Rightarrow> [] | Some mb \<Rightarrow> featureEach mb) @ results))"

text \<open>
  The first part of \<open>buffer\<close>: the defaults and the checks, in the order of the
  source. The \<open>geojson\<close> argument is \<open>None\<close> when it is falsy. The result holds
  what the second part uses: the input, \<open>units\<close>, \<open>steps\<close>, the codes of
  \<open>endCapStyle\<close> and \<open>joinStyle\<close>, and \<open>mitreLimit\<close>.
\<close>

definition validate ::
  "geojson option \<Rightarrow> jsval \<Rightarrow> optionsArg \<Rightarrow> error + (geojson \<times> jsval \<times> jsnum \<times> nat \<times> nat \<times> jsnum)"
where
  "validate geojson radius optionsArg =
     (let opts = members optionsArg;
          unitsV = orDefault (units opts) (Str ''kilometers'');
          stepsV = orDefault (steps opts) (Number (Fin 8));
          capV = orDefault (endCapStyle opts) (Str ''round'');
          joinV = orDefault (joinStyle opts) (Str ''round'');
          mitreV = orDefault (mitreLimit opts) (Number (Fin 5))
      in case geojson of
           None \<Rightarrow> Inl GeojsonRequired
         | Some gj \<Rightarrow>
             if optionsArg = NotAnObject then Inl OptionsNotObject
             else
               (case stepsV of
                  Number stepsN \<Rightarrow>
                    (case endCapStyleCode capV of
                       None \<Rightarrow> Inl EndCapStyleInvalid
                     | Some cap \<Rightarrow>
                         (case joinStyleCode joinV of
                            None \<Rightarrow> Inl JoinStyleInvalid
                          | Some join \<Rightarrow>
                              (case mitreV of
                                 Number mitreN \<Rightarrow>
                                   if radius = Undefined then Inl RadiusRequired
                                   else if lessEqZero stepsN then Inl StepsNotPositive
                                   else Inr (gj, unitsV, stepsN, cap, join, mitreN)
                               | _ \<Rightarrow> Inl MitreLimitNotNumber)))
                | _ \<Rightarrow> Inl StepsNotNumber))"

text \<open>
  The second part of \<open>buffer\<close>: the \<open>switch\<close> on \<open>geojson.type\<close>. In the
  geometry collection case the callback ignores its \<open>geometry\<close> and hands
  \<open>helpers.feature\<close> to \<open>bufferFeature\<close>.
\<close>

definition bufferByType ::
  "library \<Rightarrow> geojson \<Rightarrow> jsval \<Rightarrow> jsval \<Rightarrow> jsnum \<Rightarrow> nat \<Rightarrow> nat \<Rightarrow> jsnum \<Rightarrow> error + geojson option"
where
  "bufferByType lib geojson radius unitsV stepsV capV joinV mitreV =
     (case geojson of
        Geometry (GeometryCollection gs) \<Rightarrow>
          (case pushEach
                  (map (\<lambda>geometry.
                          bufferFeature lib HelpersFeature radius unitsV stepsV capV joinV mitreV)
                     (geomEach (GeometryCollection gs))) of
             Inl e \<Rightarrow> Inl e
           | Inr results \<Rightarrow> Inr (Some (helpers_featureCollection results)))
      | FeatureCollection fs \<Rightarrow>
          (case pushFeatures
                  (map (\<lambda>feature.
                          bufferFeature lib (GeoJSON feature) radius unitsV stepsV capV joinV mitreV)
                     (featureEach (FeatureCollection fs))) of
             Inl e \<Rightarrow> Inl e
           | Inr results \<Rightarrow> Inr (Some (helpers_featureCollection results)))
      | _ \<Rightarrow> bufferFeature lib (GeoJSON geojson) radius unitsV stepsV capV joinV mitreV)"

text \<open>\<open>buffer\<close>: the checks, then the \<open>switch\<close>.\<close>

definition buffer :: "library \<Rightarrow> geojson option \<Rightarrow> jsval \<Rightarrow> optionsArg \<Rightarrow> error + geojson option" where
  "buffer lib geojson radius optionsArg =
     (case validate geojson radius optionsArg of
        Inl e \<Rightarrow> Inl e
      | Inr (gj, unitsV, stepsN, cap, join, mitreN) \<Rightarrow>
          bufferByType lib gj radius unitsV stepsN cap join mitreN)"

declare bufferFeature.simps [simp del]

section \<open>Notions of the specification\<close>

text \<open>\<open>typeof v === "number"\<close>, and the number that such a value is.\<close>

fun isNumber :: "jsval \<Rightarrow> bool" where
  "isNumber (Number n) = True"
| "isNumber v = False"

fun numberOf :: "jsval \<Rightarrow> jsnum" where
  "numberOf (Number n) = n"
| "numberOf v = NaN"

text \<open>The exceptions of the checks: those of the eight \<open>throw\<close> statements.\<close>

fun isCheck :: "error \<Rightarrow> bool" where
  "isCheck TypeError = False"
| "isCheck (LibraryError msg) = False"
| "isCheck e = True"

text \<open>
  The first coordinate value reached by descending first elements: \<open>None\<close> when the
  descent ends at an empty array, where there is no such value.
\<close>

fun firstCoordinate :: "coords \<Rightarrow> jsnum option" where
  "firstCoordinate (Num n) = None"
| "firstCoordinate (Arr []) = None"
| "firstCoordinate (Arr (c # cs)) = (case c of Num n \<Rightarrow> Some n | Arr ds \<Rightarrow> firstCoordinate c)"

text \<open>Whether NaN stands anywhere in a coordinates value.\<close>

fun hasNaN :: "coords \<Rightarrow> bool" where
  "hasNaN (Num n) = (n = NaN)"
| "hasNaN (Arr cs) = list_ex hasNaN cs"

text \<open>
  A position is a non-empty array of numbers. A coordinates value is nested to depth \<open>d\<close>
  when it is a position for \<open>d = 0\<close>, and a non-empty array of values nested to depth
  \<open>d\<close> for \<open>d + 1\<close>: a point has depth 0, a line string 1, a polygon 2, a multi-polygon
  3.
\<close>

fun isPosition :: "coords \<Rightarrow> bool" where
  "isPosition (Num n) = False"
| "isPosition (Arr cs) = (cs \<noteq> [] \<and> list_all (\<lambda>c. case c of Num n \<Rightarrow> True | Arr ds \<Rightarrow> False) cs)"

fun nested :: "nat \<Rightarrow> coords \<Rightarrow> bool" where
  "nested 0 c = isPosition c"
| "nested (Suc d) (Num n) = False"
| "nested (Suc d) (Arr cs) = (cs \<noteq> [] \<and> list_all (nested d) cs)"

text \<open>
  Applying a transform to the values at depth \<open>d\<close>, and keeping the arrays above them as
  they are.
\<close>

fun atDepth :: "nat \<Rightarrow> (coords \<Rightarrow> coords) \<Rightarrow> coords \<Rightarrow> coords" where
  "atDepth 0 f c = f c"
| "atDepth (Suc d) f (Num n) = Num n"
| "atDepth (Suc d) f (Arr cs) = Arr (map (atDepth d f) cs)"

text \<open>
  Whether every feature in a result has empty properties.
\<close>

fun emptyProperties :: "geojson \<Rightarrow> bool" where
  "emptyProperties (Feature f) = (properties f = Some [])"
| "emptyProperties (Geometry g) = True"
| "emptyProperties (FeatureCollection fs) = list_all emptyProperties fs"

section \<open>A library for examples\<close>

text \<open>
  The examples run the module on stand-ins for its dependencies.
  \<^item> The centre of a geometry is its first position; for the function \<open>helpers.feature\<close>
    the call raises "Unknown Geometry Type".
  \<^item> The projection for a rotation adds the rotation's first component to every number of
    a position, and its inverse subtracts it; of an empty array, which has no numbers to
    read, both give a position of two NaN.
  \<^item> Reading returns what it is given.
  \<^item> A length in kilometers is a thousand times as many meters; a unit other than
    kilometers and meters raises "units is invalid".
  \<^item> Buffering a point gives an empty polygon, with the coordinates \<open>[[]]\<close>, at a
    distance that is not positive, and otherwise a closed ring of the point and of a
    position that holds the distance and the mitre limit it was given. Buffering a polygon
    gives the polygon back; other geometries are not supported.
\<close>

fun firstPosition :: "coords \<Rightarrow> jsnum \<times> jsnum" where
  "firstPosition (Arr (Arr cs # rest)) = firstPosition (Arr cs)"
| "firstPosition (Arr (Num x # Num y # rest)) = (x, y)"
| "firstPosition c = (NaN, NaN)"

definition exampleCenter :: "jsobject \<Rightarrow> string + jsnum \<times> jsnum" where
  "exampleCenter obj =
     (case obj of
        GeoJSON (Geometry (Geom t cs)) \<Rightarrow> Inr (firstPosition cs)
      | HelpersFeature \<Rightarrow> Inl ''Unknown Geometry Type''
      | _ \<Rightarrow> Inr (Fin 0, Fin 0))"

fun shiftNum :: "real \<Rightarrow> coords \<Rightarrow> coords" where
  "shiftNum d (Num (Fin r)) = Num (Fin (r + d))"
| "shiftNum d c = c"

fun shiftBy :: "real \<Rightarrow> coords \<Rightarrow> coords" where
  "shiftBy d (Arr (c # cs)) = Arr (map (shiftNum d) (c # cs))"
| "shiftBy d c = Arr [Num NaN, Num NaN]"

definition exampleProjection :: "jsnum \<times> jsnum \<Rightarrow> projection" where
  "exampleProjection rotation =
     (case fst rotation of
        Fin r \<Rightarrow> \<lparr>forward = shiftBy r, invert = shiftBy (- r)\<rparr>
      | _ \<Rightarrow> \<lparr>forward = shiftBy 0, invert = shiftBy 0\<rparr>)"

fun scaled :: "real \<Rightarrow> jsval \<Rightarrow> jsnum" where
  "scaled k (Number (Fin r)) = Fin (k * r)"
| "scaled k (Number n) = n"
| "scaled k v = NaN"

definition exampleLengthToMeters :: "jsval \<Rightarrow> jsval \<Rightarrow> string + jsnum" where
  "exampleLengthToMeters radius unit =
     (if unit = Str ''kilometers'' then Inr (scaled 1000 radius)
      else if unit = Str ''meters'' then Inr (scaled 1 radius)
      else Inl ''units is invalid'')"

definition exampleBufferOp ::
  "jstsGeometry \<Rightarrow> jsnum \<Rightarrow> nat \<Rightarrow> nat \<Rightarrow> jsnum \<Rightarrow> jsnum \<Rightarrow> string + geomType \<times> coords" where
  "exampleBufferOp jsts quadrantSegments cap join mitre distance =
     (case fst jsts of
        Point \<Rightarrow>
          if lessEqZero distance then Inr (Polygon, Arr [Arr []])
          else Inr (Polygon, Arr [Arr [snd jsts, Arr [Num distance, Num mitre], snd jsts]])
      | Polygon \<Rightarrow> Inr (Polygon, snd jsts)
      | _ \<Rightarrow> Inl ''not supported'')"

definition exampleLibrary :: library where
  "exampleLibrary =
     \<lparr>center = exampleCenter,
      geoAzimuthalEquidistant = exampleProjection,
      readGeoJSON = Inr,
      lengthToMeters = exampleLengthToMeters,
      bufferOp = exampleBufferOp\<rparr>"

definition origin :: geometry where
  "origin = Geom Point (Arr [Num (Fin 0), Num (Fin 0)])"

definition place :: geometry where
  "place = Geom Point (Arr [Num (Fin 10), Num (Fin 20)])"

definition triangle :: geometry where
  "triangle = Geom Polygon
     (Arr [Arr [Arr [Num (Fin 10), Num (Fin 20)], Arr [Num (Fin 11), Num (Fin 20)],
                Arr [Num (Fin 11), Num (Fin 21)], Arr [Num (Fin 10), Num (Fin 20)]]])"

section \<open>Facts about \<open>bufferFeature\<close> and the loops\<close>

lemma bufferFeature_null:
  "geometryOf obj = None \<Longrightarrow> bufferFeature lib obj r u s c j m = Inl TypeError"
  by (simp add: bufferFeature.simps)

lemma bufferFeature_collection:
  "geometryOf obj = Some (GeoJSON (Geometry (GeometryCollection gs))) \<Longrightarrow>
   bufferFeature lib obj r u s c j m =
     (case pushEach (map (\<lambda>g. bufferFeature lib (GeoJSON (Geometry g)) r u s c j m)
                       (geomEach (GeometryCollection gs))) of
        Inl e \<Rightarrow> Inl e
      | Inr results \<Rightarrow> Inr (Some (FeatureCollection results)))"
  by (subst bufferFeature.simps)
     (simp add: helpers_featureCollection_def del: geomEach.simps cong: sum.case_cong)

lemma bufferFeature_no_coordinates:
  "geometryOf obj = Some g \<Longrightarrow> collectionOf g = None \<Longrightarrow> coordinatesOf g = None \<Longrightarrow>
   bufferFeature lib obj r u s c j m =
     (case defineProjection lib g of Inl msg \<Rightarrow> Inl (LibraryError msg) | Inr p \<Rightarrow> Inl TypeError)"
  by (subst bufferFeature.simps) (simp cong: sum.case_cong)

lemma bufferFeature_primitive:
  "geometryOf obj = Some (GeoJSON (Geometry (Geom t cs))) \<Longrightarrow>
   bufferFeature lib obj r u s c j m =
     (case defineProjection lib (GeoJSON (Geometry (Geom t cs))) of
        Inl msg \<Rightarrow> Inl (LibraryError msg)
      | Inr projection \<Rightarrow>
          (case readGeoJSON lib (t, projectCoords cs projection) of
             Inl msg \<Rightarrow> Inl (LibraryError msg)
           | Inr jsts \<Rightarrow>
               (case lengthToMeters lib r u of
                  Inl msg \<Rightarrow> Inl (LibraryError msg)
                | Inr distance \<Rightarrow>
                    (case bufferOp lib jsts s c j m distance of
                       Inl msg \<Rightarrow> Inl (LibraryError msg)
                     | Inr buffered \<Rightarrow>
                         if coordsIsNaN (snd buffered) then Inr None
                         else Inr (Some (Feature
                           \<lparr>properties = Some (propertiesOrEmpty obj),
                            geometry = Some (Geom (fst buffered)
                              (unprojectCoords (snd buffered) projection))\<rparr>))))))"
  by (subst bufferFeature.simps) (simp add: helpers_feature_def Let_def cong: sum.case_cong if_cong)

text \<open>When every library call returns.\<close>

lemma bufferFeature_returned:
  assumes "geometryOf obj = Some (GeoJSON (Geometry (Geom t cs)))"
    and "defineProjection lib (GeoJSON (Geometry (Geom t cs))) = Inr projection"
    and "readGeoJSON lib (t, projectCoords cs projection) = Inr jsts"
    and "lengthToMeters lib r u = Inr distance"
    and "bufferOp lib jsts s c j m distance = Inr buffered"
  shows "bufferFeature lib obj r u s c j m =
     (if coordsIsNaN (snd buffered) then Inr None
      else Inr (Some (Feature
        \<lparr>properties = Some (propertiesOrEmpty obj),
         geometry = Some (Geom (fst buffered) (unprojectCoords (snd buffered) projection))\<rparr>)))"
  using assms by (simp add: bufferFeature_primitive)

text \<open>What a returned feature was made from.\<close>

lemma bufferFeature_primitive_Some:
  assumes "geometryOf obj = Some (GeoJSON (Geometry (Geom t cs)))"
    and "bufferFeature lib obj r u s c j m = Inr (Some b)"
  shows "\<exists>projection jsts distance buffered.
     defineProjection lib (GeoJSON (Geometry (Geom t cs))) = Inr projection \<and>
     readGeoJSON lib (t, projectCoords cs projection) = Inr jsts \<and>
     lengthToMeters lib r u = Inr distance \<and>
     bufferOp lib jsts s c j m distance = Inr buffered \<and>
     \<not> coordsIsNaN (snd buffered) \<and>
     b = Feature
       \<lparr>properties = Some (propertiesOrEmpty obj),
        geometry = Some (Geom (fst buffered) (unprojectCoords (snd buffered) projection))\<rparr>"
  using assms(2) unfolding bufferFeature_primitive [OF assms(1)]
  by (auto split: sum.splits if_splits)

lemma geometryOf_cases:
  assumes "geometryOf obj = Some g"
  obtains (collection) gs where "g = GeoJSON (Geometry (GeometryCollection gs))"
  | (primitive) t cs where "g = GeoJSON (Geometry (Geom t cs))"
  | (other) "collectionOf g = None" "coordinatesOf g = None"
proof (cases g)
  case (GeoJSON x)
  show ?thesis
  proof (cases x)
    case (Geometry gg)
    then show ?thesis using GeoJSON collection primitive by (cases gg) auto
  next
    case (Feature f)
    then show ?thesis using GeoJSON other by simp
  next
    case (FeatureCollection fs)
    then show ?thesis using GeoJSON other by simp
  qed
next
  case HelpersFeature
  then show ?thesis using other by simp
qed

lemma pushEach_Inr:
  "list_all (\<lambda>x. \<exists>r. x = Inr r) xs \<Longrightarrow>
   pushEach xs = Inr (concat (map (\<lambda>x. case x of Inr (Some b) \<Rightarrow> [b] | _ \<Rightarrow> []) xs))"
  by (induction xs) (auto split: option.splits)


lemma pushEach_error: "pushEach xs = Inl e \<Longrightarrow> Inl e \<in> set xs"
  by (induction xs rule: pushEach.induct) (auto split: sum.splits)

lemma pushFeatures_error: "pushFeatures xs = Inl e \<Longrightarrow> Inl e \<in> set xs"
  by (induction xs rule: pushFeatures.induct) (auto split: sum.splits)

lemma pushEach_member: "pushEach xs = Inr rs \<Longrightarrow> b \<in> set rs \<Longrightarrow> Inr (Some b) \<in> set xs"
  by (induction xs arbitrary: rs rule: pushEach.induct) (auto split: sum.splits option.splits)

lemma pushEach_all_errors: "xs \<noteq> [] \<Longrightarrow> pushEach (map (\<lambda>x. Inl e) xs) = Inl e"
  by (cases xs) simp_all

text \<open>
  The exceptions of \<open>bufferFeature\<close>: a TypeError or an exception of a library; and only
  the latter for a geometry, or a feature that has one.
\<close>

lemma bufferFeature_error:
  "bufferFeature lib obj r u s c j m = Inl e \<Longrightarrow> e = TypeError \<or> (\<exists>msg. e = LibraryError msg)"
proof (induction "geometrySize obj" arbitrary: obj e rule: less_induct)
  case less
  show ?case
  proof (cases "geometryOf obj")
    case None
    then show ?thesis using less.prems by (simp add: bufferFeature_null)
  next
    case (Some g)
    then show ?thesis
    proof (cases rule: geometryOf_cases)
      case (collection gs)
      let ?xs = "map (\<lambda>g'. bufferFeature lib (GeoJSON (Geometry g')) r u s c j m)
                   (geomEach (GeometryCollection gs))"
      have "pushEach ?xs = Inl e"
        using less.prems Some collection
        by (auto simp: bufferFeature_collection split: sum.splits simp del: geomEach.simps)
      then have "Inl e \<in> set ?xs" by (rule pushEach_error)
      then obtain g' where g': "g' \<in> set (geomEach (GeometryCollection gs))"
        and e: "bufferFeature lib (GeoJSON (Geometry g')) r u s c j m = Inl e"
        by (auto simp del: geomEach.simps)
      have "geometrySize (GeoJSON (Geometry g')) < geometrySize obj"
        using geomEach_smaller [OF g'] geometrySize_geometryOf [OF Some] collection by simp
      then show ?thesis using less.hyps e by blast
    next
      case (primitive t cs)
      then show ?thesis
        using less.prems Some by (auto simp: bufferFeature_primitive split: sum.splits if_splits)
    next
      case other
      then show ?thesis
        using less.prems Some by (auto simp: bufferFeature_no_coordinates split: sum.splits)
    qed
  qed
qed


lemma bufferFeature_same_geometry:
  "geometryOf obj = Some (GeoJSON (Geometry (GeometryCollection gs))) \<Longrightarrow>
   bufferFeature lib obj r u s c j m =
   bufferFeature lib (GeoJSON (Geometry (GeometryCollection gs))) r u s c j m"
  by (simp add: bufferFeature_collection del: geomEach.simps)


lemma bufferByType_error:
  assumes "bufferByType lib gj r u s c j m = Inl e"
  shows "e = TypeError \<or> (\<exists>msg. e = LibraryError msg)"
proof -
  have "\<exists>obj. bufferFeature lib obj r u s c j m = Inl e"
  proof (cases gj)
    case (Feature f)
    then show ?thesis using assms by (auto simp: bufferByType_def)
  next
    case (Geometry g)
    show ?thesis
    proof (cases g)
      case (Geom t cs)
      then show ?thesis using assms Geometry by (auto simp: bufferByType_def)
    next
      case (GeometryCollection gs)
      then have "pushEach (map (\<lambda>geometry. bufferFeature lib HelpersFeature r u s c j m)
                   (geomEach (GeometryCollection gs))) = Inl e"
        using assms Geometry
        by (auto simp: bufferByType_def split: sum.splits simp del: geomEach.simps)
      then have "Inl e \<in> set (map (\<lambda>geometry. bufferFeature lib HelpersFeature r u s c j m)
                   (geomEach (GeometryCollection gs)))"
        by (rule pushEach_error)
      then have "bufferFeature lib HelpersFeature r u s c j m = Inl e"
        by (auto simp del: geomEach.simps)
      then show ?thesis by blast
    qed
  next
    case (FeatureCollection fs)
    then have "pushFeatures (map (\<lambda>feature. bufferFeature lib (GeoJSON feature) r u s c j m) fs) = Inl e"
      using assms by (auto simp: bufferByType_def split: sum.splits)
    then have "Inl e \<in> set (map (\<lambda>feature. bufferFeature lib (GeoJSON feature) r u s c j m) fs)"
      by (rule pushFeatures_error)
    then obtain x where "bufferFeature lib (GeoJSON x) r u s c j m = Inl e" by auto
    then show ?thesis by blast
  qed
  then show ?thesis using bufferFeature_error by blast
qed

section \<open>Facts about the checks\<close>

lemma validate_chain:
  "validate g r oa =
     (if g = None then Inl GeojsonRequired
      else if oa = NotAnObject then Inl OptionsNotObject
      else if \<not> isNumber (orDefault (steps (members oa)) (Number (Fin 8))) then Inl StepsNotNumber
      else if endCapStyleCode (orDefault (endCapStyle (members oa)) (Str ''round'')) = None
        then Inl EndCapStyleInvalid
      else if joinStyleCode (orDefault (joinStyle (members oa)) (Str ''round'')) = None
        then Inl JoinStyleInvalid
      else if \<not> isNumber (orDefault (mitreLimit (members oa)) (Number (Fin 5)))
        then Inl MitreLimitNotNumber
      else if r = Undefined then Inl RadiusRequired
      else if lessEqZero (numberOf (orDefault (steps (members oa)) (Number (Fin 8))))
        then Inl StepsNotPositive
      else Inr (the g, orDefault (units (members oa)) (Str ''kilometers''),
                numberOf (orDefault (steps (members oa)) (Number (Fin 8))),
                the (endCapStyleCode (orDefault (endCapStyle (members oa)) (Str ''round''))),
                the (joinStyleCode (orDefault (joinStyle (members oa)) (Str ''round''))),
                numberOf (orDefault (mitreLimit (members oa)) (Number (Fin 5)))))"
proof (cases g)
  case None
  then show ?thesis by (simp add: validate_def)
next
  case (Some gj)
  show ?thesis
  proof (cases "orDefault (steps (members oa)) (Number (Fin 8))")
    case (Number n)
    show ?thesis
    proof (cases "endCapStyleCode (orDefault (endCapStyle (members oa)) (Str ''round''))")
      case None
      then show ?thesis using Some Number by (simp add: validate_def)
    next
      case cap: (Some c)
      show ?thesis
      proof (cases "joinStyleCode (orDefault (joinStyle (members oa)) (Str ''round''))")
        case None
        then show ?thesis using Some Number cap by (simp add: validate_def)
      next
        case join: (Some j)
        show ?thesis
          using Some Number cap join
          by (cases "orDefault (mitreLimit (members oa)) (Number (Fin 5))")
             (simp_all add: validate_def)
      qed
    qed
  qed (simp_all add: validate_def Some)
qed

lemma endCapStyleCode_None:
  "(endCapStyleCode v = None) = (v \<notin> {Str ''round'', Str ''flat'', Str ''square''})"
  by (simp add: endCapStyleCode_def)

lemma joinStyleCode_None:
  "(joinStyleCode v = None) = (v \<notin> {Str ''round'', Str ''mitre'', Str ''bevel''})"
  by (simp add: joinStyleCode_def)

lemma isNumber_iff: "isNumber v = (\<exists>n. v = Number n)"
  by (cases v) simp_all

lemma orDefault_falsy: "\<not> truthy v \<Longrightarrow> orDefault v d = d"
  by (simp add: orDefault_def)

lemma orDefault_truthy: "truthy v \<Longrightarrow> orDefault v d = v"
  by (simp add: orDefault_def)

lemma buffer_no_geojson: "buffer lib None r oa = Inl GeojsonRequired"
  by (simp add: buffer_def validate_def)

text \<open>\<open>buffer\<close> raises an exception of its checks exactly when the checks do.\<close>

lemma validate_isCheck: "validate g r oa = Inl e \<Longrightarrow> isCheck e"
  by (auto simp: validate_chain split: if_splits)

lemma buffer_validation_error:
  "isCheck e \<Longrightarrow> (buffer lib g r oa = Inl e) = (validate g r oa = Inl e)"
  by (auto simp: buffer_def split: sum.splits dest: bufferByType_error)

lemma validate_EndCapStyleInvalid:
  "(validate g r oa = Inl EndCapStyleInvalid) =
     (g \<noteq> None \<and> oa \<noteq> NotAnObject \<and>
      (\<exists>n. orDefault (steps (members oa)) (Number (Fin 8)) = Number n) \<and>
      truthy (endCapStyle (members oa)) \<and>
      endCapStyle (members oa) \<notin> {Str ''round'', Str ''flat'', Str ''square''})"
proof (cases "truthy (endCapStyle (members oa))")
  case True
  then show ?thesis
    by (simp add: validate_chain endCapStyleCode_None isNumber_iff orDefault_truthy)
next
  case False
  then show ?thesis
    by (simp add: validate_chain endCapStyleCode_None isNumber_iff orDefault_falsy)
qed

lemma validate_JoinStyleInvalid:
  "(validate g r oa = Inl JoinStyleInvalid) =
     (g \<noteq> None \<and> oa \<noteq> NotAnObject \<and>
      (\<exists>n. orDefault (steps (members oa)) (Number (Fin 8)) = Number n) \<and>
      orDefault (endCapStyle (members oa)) (Str ''round'') \<in> {Str ''round'', Str ''flat'', Str ''square''} \<and>
      truthy (joinStyle (members oa)) \<and>
      joinStyle (members oa) \<notin> {Str ''round'', Str ''mitre'', Str ''bevel''})"
proof (cases "truthy (joinStyle (members oa))")
  case True
  then show ?thesis
    by (simp add: validate_chain endCapStyleCode_None joinStyleCode_None isNumber_iff orDefault_truthy)
next
  case False
  then show ?thesis
    by (simp add: validate_chain endCapStyleCode_None joinStyleCode_None isNumber_iff orDefault_falsy)
qed

lemma validate_MitreLimitNotNumber:
  "(validate g r oa = Inl MitreLimitNotNumber) =
     (g \<noteq> None \<and> oa \<noteq> NotAnObject \<and>
      (\<exists>n. orDefault (steps (members oa)) (Number (Fin 8)) = Number n) \<and>
      orDefault (endCapStyle (members oa)) (Str ''round'') \<in> {Str ''round'', Str ''flat'', Str ''square''} \<and>
      orDefault (joinStyle (members oa)) (Str ''round'') \<in> {Str ''round'', Str ''mitre'', Str ''bevel''} \<and>
      truthy (mitreLimit (members oa)) \<and>
      (\<forall>n. mitreLimit (members oa) \<noteq> Number n))"
proof (cases "truthy (mitreLimit (members oa))")
  case True
  then show ?thesis
    by (simp add: validate_chain endCapStyleCode_None joinStyleCode_None isNumber_iff orDefault_truthy)
next
  case False
  then show ?thesis
    by (simp add: validate_chain endCapStyleCode_None joinStyleCode_None isNumber_iff orDefault_falsy)
qed

lemma validate_StepsNotPositive:
  "(validate g r oa = Inl StepsNotPositive) =
     (g \<noteq> None \<and> oa \<noteq> NotAnObject \<and>
      orDefault (endCapStyle (members oa)) (Str ''round'') \<in> {Str ''round'', Str ''flat'', Str ''square''} \<and>
      orDefault (joinStyle (members oa)) (Str ''round'') \<in> {Str ''round'', Str ''mitre'', Str ''bevel''} \<and>
      (\<exists>n. orDefault (mitreLimit (members oa)) (Number (Fin 5)) = Number n) \<and>
      r \<noteq> Undefined \<and>
      (\<exists>n. steps (members oa) = Number n \<and> (n = NegInf \<or> (\<exists>x<0. n = Fin x))))"
proof (cases "steps (members oa)")
  case (Number n)
  then show ?thesis
    by (cases n)
       (auto simp: validate_chain endCapStyleCode_None joinStyleCode_None isNumber_iff orDefault_def)
qed (simp_all add: validate_chain endCapStyleCode_None joinStyleCode_None isNumber_iff orDefault_def)

lemma validate_falsy_steps:
  "\<not> truthy v \<Longrightarrow>
   validate g r (Options (opts\<lparr>steps := v\<rparr>)) = validate g r (Options (opts\<lparr>steps := Number (Fin 8)\<rparr>))"
  by (simp add: validate_chain orDefault_def)

lemma validate_falsy_mitreLimit:
  "\<not> truthy v \<Longrightarrow>
   validate g r (Options (opts\<lparr>mitreLimit := v\<rparr>)) =
   validate g r (Options (opts\<lparr>mitreLimit := Number (Fin 5)\<rparr>))"
  by (simp add: validate_chain orDefault_def)

lemma validate_falsy_endCapStyle:
  "\<not> truthy v \<Longrightarrow>
   validate g r (Options (opts\<lparr>endCapStyle := v\<rparr>)) =
   validate g r (Options (opts\<lparr>endCapStyle := Str ''round''\<rparr>))"
  by (simp add: validate_chain orDefault_def)

lemma validate_falsy_joinStyle:
  "\<not> truthy v \<Longrightarrow>
   validate g r (Options (opts\<lparr>joinStyle := v\<rparr>)) =
   validate g r (Options (opts\<lparr>joinStyle := Str ''round''\<rparr>))"
  by (simp add: validate_chain orDefault_def)

lemma buffer_cong_validate:
  "validate g r oa = validate g' r oa' \<Longrightarrow> buffer lib g r oa = buffer lib g' r oa'"
  by (simp add: buffer_def)

lemma validate_bad_endCapStyle:
  "truthy (endCapStyle (members oa)) \<Longrightarrow>
   endCapStyle (members oa) \<notin> {Str ''round'', Str ''flat'', Str ''square''} \<Longrightarrow>
   \<exists>e. validate g r oa = Inl e"
  by (simp add: validate_chain endCapStyleCode_None orDefault_truthy)

lemma validate_bad_joinStyle:
  "truthy (joinStyle (members oa)) \<Longrightarrow>
   joinStyle (members oa) \<notin> {Str ''round'', Str ''mitre'', Str ''bevel''} \<Longrightarrow>
   \<exists>e. validate g r oa = Inl e"
  by (simp add: validate_chain joinStyleCode_None orDefault_truthy)

lemma validate_number_mitreLimit:
  "x \<noteq> 0 \<Longrightarrow>
   validate g r (Options (opts\<lparr>mitreLimit := Number (Fin x)\<rparr>)) =
     (case validate g r (Options (opts\<lparr>mitreLimit := Number (Fin 5)\<rparr>)) of
        Inl e \<Rightarrow> Inl e
      | Inr (gj, u, s, c, j, m) \<Rightarrow> Inr (gj, u, s, c, j, Fin x))"
  by (simp add: validate_chain orDefault_def)

text \<open>
  The radius is only compared with \<open>undefined\<close>: a zero radius passes the checks that any
  other radius passes.
\<close>

lemma validate_RadiusRequired:
  "(validate g r oa = Inl RadiusRequired) =
     (r = Undefined \<and> validate g (Number (Fin 1)) oa \<noteq> Inl GeojsonRequired \<and>
      validate g (Number (Fin 1)) oa \<noteq> Inl OptionsNotObject \<and>
      validate g (Number (Fin 1)) oa \<noteq> Inl StepsNotNumber \<and>
      validate g (Number (Fin 1)) oa \<noteq> Inl EndCapStyleInvalid \<and>
      validate g (Number (Fin 1)) oa \<noteq> Inl JoinStyleInvalid \<and>
      validate g (Number (Fin 1)) oa \<noteq> Inl MitreLimitNotNumber)"
  by (simp add: validate_chain)

lemma validate_zero_radius:
  "r \<noteq> Undefined \<Longrightarrow> validate g (Number (Fin 0)) oa = validate g r oa"
  by (simp add: validate_chain)

lemma validate_input:
  "validate g r oa = Inr (gj, u, s, c, j, m) \<Longrightarrow> g = Some gj"
  by (auto simp: validate_chain split: if_splits)

lemma buffer_validated:
  "validate g r oa = Inr (gj, u, s, c, j, m) \<Longrightarrow>
   buffer lib g r oa = bufferByType lib gj r u s c j m"
  by (simp add: buffer_def)

section \<open>Facts about projecting coordinates\<close>

lemma nested_is_array: "nested d c \<Longrightarrow> \<exists>cs. c = Arr cs \<and> cs \<noteq> []"
  by (cases d; cases c) simp_all

lemma position_first: "isPosition c \<Longrightarrow> \<exists>n rest. c = Arr (Num n # rest)"
proof (cases c)
  case (Num n)
  assume "isPosition c"
  then show ?thesis using Num by simp
next
  case (Arr cs)
  assume "isPosition c"
  then obtain x rest where cs: "cs = x # rest" and x: "case x of Num n \<Rightarrow> True | Arr ds \<Rightarrow> False"
    using Arr by (cases cs) auto
  then show ?thesis using Arr by (cases x) auto
qed

lemma projectCoords_position: "isPosition c \<Longrightarrow> projectCoords c proj = forward proj c"
  by (drule position_first) auto

lemma unprojectCoords_position: "isPosition c \<Longrightarrow> unprojectCoords c proj = invert proj c"
  by (drule position_first) auto

lemma projectCoords_array:
  "cs \<noteq> [] \<Longrightarrow> list_all (nested d) cs \<Longrightarrow>
   projectCoords (Arr cs) proj = Arr (map (\<lambda>coord. projectCoords coord proj) cs)"
proof -
  assume "cs \<noteq> []" and all: "list_all (nested d) cs"
  then obtain x rest where cs: "cs = x # rest" by (cases cs) auto
  then obtain ds where "x = Arr ds" using all nested_is_array [of d x] by auto
  then show ?thesis using cs by simp
qed

lemma unprojectCoords_array:
  "cs \<noteq> [] \<Longrightarrow> list_all (nested d) cs \<Longrightarrow>
   unprojectCoords (Arr cs) proj = Arr (map (\<lambda>coord. unprojectCoords coord proj) cs)"
proof -
  assume "cs \<noteq> []" and all: "list_all (nested d) cs"
  then obtain x rest where cs: "cs = x # rest" by (cases cs) auto
  then obtain ds where "x = Arr ds" using all nested_is_array [of d x] by auto
  then show ?thesis using cs by simp
qed

lemma projectCoords_atDepth: "nested d c \<Longrightarrow> projectCoords c proj = atDepth d (forward proj) c"
proof (induction d arbitrary: c)
  case 0
  then show ?case by (simp add: projectCoords_position)
next
  case (Suc d)
  then obtain cs where c: "c = Arr cs" and cs: "cs \<noteq> []" "list_all (nested d) cs"
    by (cases c) auto
  have "map (\<lambda>coord. projectCoords coord proj) cs = map (atDepth d (forward proj)) cs"
    using cs(2) Suc.IH by (auto simp: list_all_iff)
  then show ?case using c cs by (simp add: projectCoords_array)
qed

lemma unprojectCoords_atDepth: "nested d c \<Longrightarrow> unprojectCoords c proj = atDepth d (invert proj) c"
proof (induction d arbitrary: c)
  case 0
  then show ?case by (simp add: unprojectCoords_position)
next
  case (Suc d)
  then obtain cs where c: "c = Arr cs" and cs: "cs \<noteq> []" "list_all (nested d) cs"
    by (cases c) auto
  have "map (\<lambda>coord. unprojectCoords coord proj) cs = map (atDepth d (invert proj)) cs"
    using cs(2) Suc.IH by (auto simp: list_all_iff)
  then show ?case using c cs by (simp add: unprojectCoords_array)
qed

lemma nested_atDepth:
  "nested d c \<Longrightarrow> (\<And>p. isPosition p \<Longrightarrow> isPosition (f p)) \<Longrightarrow> nested d (atDepth d f c)"
proof (induction d arbitrary: c)
  case 0
  then show ?case by simp
next
  case (Suc d)
  then obtain cs where c: "c = Arr cs" and cs: "cs \<noteq> []" "list_all (nested d) cs"
    by (cases c) auto
  have "list_all (nested d) (map (atDepth d f) cs)"
    using cs(2) Suc.IH Suc.prems(2) by (auto simp: list_all_iff)
  then show ?case using c cs by simp
qed

lemma atDepth_comp: "atDepth d g (atDepth d f c) = atDepth d (g \<circ> f) c"
proof (induction d arbitrary: c)
  case 0
  then show ?case by simp
next
  case (Suc d)
  then show ?case by (cases c) simp_all
qed

lemma atDepth_identity:
  "nested d c \<Longrightarrow> (\<And>p. isPosition p \<Longrightarrow> f p = p) \<Longrightarrow> atDepth d f c = c"
proof (induction d arbitrary: c)
  case 0
  then show ?case by simp
next
  case (Suc d)
  then obtain cs where c: "c = Arr cs" and cs: "cs \<noteq> []" "list_all (nested d) cs"
    by (cases c) auto
  have "map (atDepth d f) cs = cs"
    using cs(2) Suc.IH Suc.prems(2) by (auto simp: list_all_iff intro: map_idI)
  then show ?case using c by simp
qed

lemma position_shape: "isPosition p \<Longrightarrow> \<exists>c cs. p = Arr (c # cs) \<and> (\<forall>x\<in>set (c # cs). \<exists>n. x = Num n)"
proof (cases p)
  case (Num n)
  assume "isPosition p"
  then show ?thesis using Num by simp
next
  case (Arr xs)
  assume "isPosition p"
  then have "xs \<noteq> []" and "\<forall>x\<in>set xs. \<exists>n. x = Num n"
    using Arr by (auto simp: list_all_iff split: coords.splits) (metis coords.exhaust)
  then show ?thesis using Arr by (cases xs) auto
qed

lemma shiftNum_number: "\<exists>n'. shiftNum d (Num n) = Num n'"
  by (cases n) simp_all

lemma shiftBy_position: "isPosition p \<Longrightarrow> isPosition (shiftBy d p)"
proof -
  assume "isPosition p"
  then obtain c cs where p: "p = Arr (c # cs)" and nums: "\<forall>x\<in>set (c # cs). \<exists>n. x = Num n"
    using position_shape by blast
  have "\<forall>x\<in>set (c # cs). \<exists>n'. shiftNum d x = Num n'"
    using nums shiftNum_number by metis
  then have "list_all (\<lambda>c. case c of Num n \<Rightarrow> True | Arr ds \<Rightarrow> False) (map (shiftNum d) (c # cs))"
    unfolding list_all_iff by fastforce
  then show ?thesis using p by simp
qed

lemma shiftNum_inverse: "shiftNum (- d) (shiftNum d c) = c"
  by (induction d c rule: shiftNum.induct) simp_all

lemma shiftBy_inverse: "isPosition p \<Longrightarrow> shiftBy (- d) (shiftBy d p) = p"
proof -
  assume "isPosition p"
  then obtain c cs where p: "p = Arr (c # cs)" using position_shape by blast
  show ?thesis unfolding p by (simp add: shiftNum_inverse map_idI)
qed

section \<open>Facts about the results\<close>

lemma coordsIsNaN_firstCoordinate: "coordsIsNaN c = isNaN (firstCoordinate c)"
  by (induction c rule: coordsIsNaN.induct) simp_all

lemma coordsIsNaN_iff:
  "coordsIsNaN c = (firstCoordinate c = Some NaN \<or> firstCoordinate c = None)"
  by (cases "firstCoordinate c") (auto simp: coordsIsNaN_firstCoordinate)

lemma bufferFeature_bare_geometry_emptyProperties:
  "bufferFeature lib (GeoJSON (Geometry g)) r u s c j m = Inr (Some b) \<Longrightarrow> emptyProperties b"
proof (induction g arbitrary: b rule: measure_induct_rule [where f = size])
  case (less g)
  show ?case
  proof (cases g)
    case (Geom t cs)
    then show ?thesis
      using less.prems bufferFeature_primitive_Some [of "GeoJSON (Geometry g)" t cs lib r u s c j m b]
      by auto
  next
    case (GeometryCollection gs)
    let ?xs = "map (\<lambda>g'. bufferFeature lib (GeoJSON (Geometry g')) r u s c j m)
                 (geomEach (GeometryCollection gs))"
    obtain rs where rs: "pushEach ?xs = Inr rs" and b: "b = FeatureCollection rs"
      using less.prems GeometryCollection
      by (auto simp: bufferFeature_collection split: sum.splits simp del: geomEach.simps)
    have "emptyProperties b'" if mem: "b' \<in> set rs" for b'
    proof -
      have "Inr (Some b') \<in> set ?xs" using rs mem by (rule pushEach_member)
      then obtain g' where g': "g' \<in> set (geomEach (GeometryCollection gs))"
        and b': "bufferFeature lib (GeoJSON (Geometry g')) r u s c j m = Inr (Some b')"
        by (auto simp del: geomEach.simps)
      have "size g' < size g" using geomEach_smaller [OF g'] GeometryCollection by simp
      then show ?thesis using less.IH b' by blast
    qed
    then show ?thesis using b by (simp add: list_all_iff)
  qed
qed

lemma bufferFeature_collection_emptyProperties:
  assumes "geometryOf obj = Some (GeoJSON (Geometry (GeometryCollection gs)))"
    and "bufferFeature lib obj r u s c j m = Inr (Some b)"
  shows "\<exists>fs. b = FeatureCollection fs \<and> list_all emptyProperties fs"
proof -
  have "emptyProperties b"
    using assms bufferFeature_same_geometry [OF assms(1)]
      bufferFeature_bare_geometry_emptyProperties by metis
  moreover have "\<exists>fs. b = FeatureCollection fs"
    using assms by (auto simp: bufferFeature_collection split: sum.splits simp del: geomEach.simps)
  ultimately show ?thesis by auto
qed

lemma buffer_returns:
  "buffer lib (Some gj) r oa = Inr res \<Longrightarrow>
   \<exists>u s c j m. validate (Some gj) r oa = Inr (gj, u, s, c, j, m) \<and>
     bufferByType lib gj r u s c j m = Inr res"
proof -
  assume run: "buffer lib (Some gj) r oa = Inr res"
  then obtain p where p: "validate (Some gj) r oa = Inr p"
    by (auto simp: buffer_def split: sum.splits)
  obtain gj' u s c j m where p': "p = (gj', u, s, c, j, m)" by (cases p) auto
  have "gj' = gj" using validate_input [of "Some gj" r oa gj' u s c j m] p p' by simp
  then show ?thesis using run p p' by (auto simp: buffer_def)
qed

lemma buffer_Feature:
  "buffer lib (Some (Feature f)) r oa = Inr res \<Longrightarrow>
   \<exists>u s c j m. bufferFeature lib (GeoJSON (Feature f)) r u s c j m = Inr res"
proof -
  assume "buffer lib (Some (Feature f)) r oa = Inr res"
  then obtain u s c j m where "bufferByType lib (Feature f) r u s c j m = Inr res"
    using buffer_returns by blast
  then have "bufferFeature lib (GeoJSON (Feature f)) r u s c j m = Inr res"
    by (simp add: bufferByType_def)
  then show ?thesis by blast
qed

lemma buffer_primitive_Geometry:
  "buffer lib (Some (Geometry (Geom t cs))) r oa = Inr res \<Longrightarrow>
   \<exists>u s c j m. bufferFeature lib (GeoJSON (Geometry (Geom t cs))) r u s c j m = Inr res"
proof -
  assume "buffer lib (Some (Geometry (Geom t cs))) r oa = Inr res"
  then obtain u s c j m where "bufferByType lib (Geometry (Geom t cs)) r u s c j m = Inr res"
    using buffer_returns by blast
  then have "bufferFeature lib (GeoJSON (Geometry (Geom t cs))) r u s c j m = Inr res"
    by (simp add: bufferByType_def)
  then show ?thesis by blast
qed


lemmas example_run =
  buffer_def validate_def emptyObject_def orDefault_def endCapStyleCode_def joinStyleCode_def
  bufferByType_def origin_def place_def triangle_def bufferFeature_primitive
  bufferFeature_collection bufferFeature_null bufferFeature_no_coordinates exampleLibrary_def
  exampleCenter_def exampleLengthToMeters_def exampleBufferOp_def exampleProjection_def
  defineProjection_def

text \<open>
  A top-level geometry collection: every visited member makes the callback call
  \<open>bufferFeature\<close> on \<open>helpers.feature\<close>, so the call ends in an exception unless no
  member is visited: the exception of \<open>center\<close> for that function, or else the TypeError of
  reading \<open>coords[0]\<close> of its \<open>undefined\<close> coordinates.
\<close>

lemma bufferFeature_HelpersFeature:
  "bufferFeature lib HelpersFeature r u s c j m =
     (case center lib HelpersFeature of Inl msg \<Rightarrow> Inl (LibraryError msg) | Inr centre \<Rightarrow> Inl TypeError)"
  by (simp add: bufferFeature_no_coordinates defineProjection_def split: sum.splits)

lemma buffer_GeometryCollection:
  assumes "validate (Some (Geometry (GeometryCollection gs))) r oa = Inr (gj, u, s, c, j, m)"
  shows "buffer lib (Some (Geometry (GeometryCollection gs))) r oa =
     (if geomEach (GeometryCollection gs) = [] then Inr (Some (FeatureCollection []))
      else case center lib HelpersFeature of
             Inl msg \<Rightarrow> Inl (LibraryError msg)
           | Inr centre \<Rightarrow> Inl TypeError)"
proof -
  have gj: "gj = Geometry (GeometryCollection gs)" using validate_input [OF assms] by simp
  show ?thesis
  proof (cases "center lib HelpersFeature")
    case (Inl msg)
    then have "bufferFeature lib HelpersFeature r u s c j m = Inl (LibraryError msg)"
      by (simp add: bufferFeature_HelpersFeature)
    then show ?thesis
      using Inl
      by (simp add: buffer_validated [OF assms] gj bufferByType_def pushEach_all_errors
            helpers_featureCollection_def del: geomEach.simps)
  next
    case (Inr centre)
    then have "bufferFeature lib HelpersFeature r u s c j m = Inl TypeError"
      by (simp add: bufferFeature_HelpersFeature)
    then show ?thesis
      using Inr
      by (simp add: buffer_validated [OF assms] gj bufferByType_def pushEach_all_errors
            helpers_featureCollection_def del: geomEach.simps)
  qed
qed


section \<open>The claims\<close>




text \<open>
  C2. A top-level geometry collection: the claim is that each member geometry is handed
  to \<open>bufferFeature\<close> and the buffered members are returned. The callback hands
  \<open>helpers.feature\<close> to \<open>bufferFeature\<close> instead, and the call ends in an exception for
  a collection of one point, whatever the libraries compute: the exception that \<open>center\<close>
  raises for the function ("Unknown Geometry Type" in the example library), or a TypeError
  if \<open>center\<close> returns.
\<close>

theorem buffer_GeometryCollection_throws:
  "buffer lib (Some (Geometry (GeometryCollection [Geom Point (Arr [Num (Fin 0), Num (Fin 0)])])))
     (Number (Fin 1)) NoOptions =
     (case center lib HelpersFeature of Inl msg \<Rightarrow> Inl (LibraryError msg) | Inr centre \<Rightarrow> Inl TypeError)
   \<and> (\<exists>e. buffer lib (Some (Geometry (GeometryCollection [Geom Point (Arr [Num (Fin 0), Num (Fin 0)])])))
          (Number (Fin 1)) NoOptions = Inl e)
   \<and> buffer exampleLibrary
        (Some (Geometry (GeometryCollection [Geom Point (Arr [Num (Fin 0), Num (Fin 0)])])))
        (Number (Fin 1)) NoOptions = Inl (LibraryError ''Unknown Geometry Type'')"
proof -
  have valid: "validate (Some (Geometry (GeometryCollection [Geom Point (Arr [Num (Fin 0), Num (Fin 0)])])))
      (Number (Fin 1)) NoOptions =
    Inr (Geometry (GeometryCollection [Geom Point (Arr [Num (Fin 0), Num (Fin 0)])]),
         Str ''kilometers'', Fin 8, 1, 1, Fin 5)"
    by (simp add: validate_def emptyObject_def orDefault_def endCapStyleCode_def joinStyleCode_def)
  show ?thesis
    by (auto simp: buffer_GeometryCollection [OF valid] exampleLibrary_def exampleCenter_def
          split: sum.splits)
qed

text \<open>
  C3, as claimed: \<open>buffer\<close> throws if and only if a present \<open>endCapStyle\<close> is outside
  round, flat and square. The empty string is present and outside, and is accepted: it is
  falsy, so \<open>||\<close> replaces it by \<open>"round"\<close>.
\<close>

theorem empty_endCapStyle_accepted:
  "buffer exampleLibrary (Some (Geometry origin)) (Number (Fin 3))
     (Options (emptyObject\<lparr>endCapStyle := Str ''''\<rparr>)) =
   Inr (Some (Feature
     \<lparr>properties = Some [],
      geometry = Some (Geom Polygon
        (Arr [Arr [Arr [Num (Fin 0), Num (Fin 0)], Arr [Num (Fin 3000), Num (Fin 5)],
                   Arr [Num (Fin 0), Num (Fin 0)]]]))\<rparr>))"
  by (simp add: example_run)

text \<open>
  C3, amended. \<open>buffer\<close> throws the \<open>endCapStyle\<close> error if and only if the checks before
  it pass (\<open>geojson\<close> is truthy, \<open>options\<close> is an object, \<open>steps\<close> is a number after its
  default) and \<open>endCapStyle\<close> is truthy and none of round, flat and square; and the
  \<open>joinStyle\<close> error if and only if moreover \<open>endCapStyle\<close> is accepted and \<open>joinStyle\<close>
  is truthy and none of round, mitre and bevel. Every falsy value of either option
  (absent, \<open>null\<close>, \<open>false\<close>, 0, NaN, the empty string) stands for \<open>"round"\<close>. A truthy
  value outside the three makes \<open>buffer\<close> throw an error that does not depend on the
  libraries: no buffering is performed.
\<close>

theorem style_options_checked:
  "(buffer lib g r oa = Inl EndCapStyleInvalid) =
     (g \<noteq> None \<and> oa \<noteq> NotAnObject \<and>
      (\<exists>n. orDefault (steps (members oa)) (Number (Fin 8)) = Number n) \<and>
      truthy (endCapStyle (members oa)) \<and>
      endCapStyle (members oa) \<notin> {Str ''round'', Str ''flat'', Str ''square''})
   \<and> (buffer lib g r oa = Inl JoinStyleInvalid) =
     (g \<noteq> None \<and> oa \<noteq> NotAnObject \<and>
      (\<exists>n. orDefault (steps (members oa)) (Number (Fin 8)) = Number n) \<and>
      orDefault (endCapStyle (members oa)) (Str ''round'') \<in> {Str ''round'', Str ''flat'', Str ''square''} \<and>
      truthy (joinStyle (members oa)) \<and>
      joinStyle (members oa) \<notin> {Str ''round'', Str ''mitre'', Str ''bevel''})
   \<and> (\<not> truthy v \<longrightarrow>
        buffer lib g r (Options (opts\<lparr>endCapStyle := v\<rparr>)) =
        buffer lib g r (Options (opts\<lparr>endCapStyle := Str ''round''\<rparr>)))
   \<and> (\<not> truthy v \<longrightarrow>
        buffer lib g r (Options (opts\<lparr>joinStyle := v\<rparr>)) =
        buffer lib g r (Options (opts\<lparr>joinStyle := Str ''round''\<rparr>)))
   \<and> (truthy (endCapStyle (members oa)) \<and>
        endCapStyle (members oa) \<notin> {Str ''round'', Str ''flat'', Str ''square''} \<longrightarrow>
        (\<exists>e. \<forall>lib'. buffer lib' g r oa = Inl e))
   \<and> (truthy (joinStyle (members oa)) \<and>
        joinStyle (members oa) \<notin> {Str ''round'', Str ''mitre'', Str ''bevel''} \<longrightarrow>
        (\<exists>e. \<forall>lib'. buffer lib' g r oa = Inl e))"
proof (intro conjI impI)
  show "(buffer lib g r oa = Inl EndCapStyleInvalid) =
     (g \<noteq> None \<and> oa \<noteq> NotAnObject \<and>
      (\<exists>n. orDefault (steps (members oa)) (Number (Fin 8)) = Number n) \<and>
      truthy (endCapStyle (members oa)) \<and>
      endCapStyle (members oa) \<notin> {Str ''round'', Str ''flat'', Str ''square''})"
    by (simp only: buffer_validation_error validate_EndCapStyleInvalid isCheck.simps)
  show "(buffer lib g r oa = Inl JoinStyleInvalid) =
     (g \<noteq> None \<and> oa \<noteq> NotAnObject \<and>
      (\<exists>n. orDefault (steps (members oa)) (Number (Fin 8)) = Number n) \<and>
      orDefault (endCapStyle (members oa)) (Str ''round'') \<in> {Str ''round'', Str ''flat'', Str ''square''} \<and>
      truthy (joinStyle (members oa)) \<and>
      joinStyle (members oa) \<notin> {Str ''round'', Str ''mitre'', Str ''bevel''})"
    by (simp only: buffer_validation_error validate_JoinStyleInvalid isCheck.simps)
  show "buffer lib g r (Options (opts\<lparr>endCapStyle := v\<rparr>)) =
        buffer lib g r (Options (opts\<lparr>endCapStyle := Str ''round''\<rparr>))" if "\<not> truthy v"
    using that by (intro buffer_cong_validate validate_falsy_endCapStyle)
  show "buffer lib g r (Options (opts\<lparr>joinStyle := v\<rparr>)) =
        buffer lib g r (Options (opts\<lparr>joinStyle := Str ''round''\<rparr>))" if "\<not> truthy v"
    using that by (intro buffer_cong_validate validate_falsy_joinStyle)
  show "\<exists>e. \<forall>lib'. buffer lib' g r oa = Inl e"
    if bad: "truthy (endCapStyle (members oa)) \<and>
        endCapStyle (members oa) \<notin> {Str ''round'', Str ''flat'', Str ''square''}"
  proof -
    obtain e where "validate g r oa = Inl e" using bad validate_bad_endCapStyle by blast
    then show ?thesis by (simp add: buffer_def)
  qed
  show "\<exists>e. \<forall>lib'. buffer lib' g r oa = Inl e"
    if bad: "truthy (joinStyle (members oa)) \<and>
        joinStyle (members oa) \<notin> {Str ''round'', Str ''mitre'', Str ''bevel''}"
  proof -
    obtain e where "validate g r oa = Inl e" using bad validate_bad_joinStyle by blast
    then show ?thesis by (simp add: buffer_def)
  qed
qed

theorem style_options_checked_witness:
  "buffer exampleLibrary (Some (Geometry origin)) (Number (Fin 3))
     (Options (emptyObject\<lparr>endCapStyle := Str ''butt''\<rparr>)) = Inl EndCapStyleInvalid
   \<and> buffer exampleLibrary (Some (Geometry origin)) (Number (Fin 3))
        (Options (emptyObject\<lparr>joinStyle := Str ''miter''\<rparr>)) = Inl JoinStyleInvalid
   \<and> buffer exampleLibrary (Some (Geometry origin)) (Number (Fin 3))
        (Options (emptyObject\<lparr>endCapStyle := Null\<rparr>)) =
      buffer exampleLibrary (Some (Geometry origin)) (Number (Fin 3))
        (Options (emptyObject\<lparr>endCapStyle := Str ''round''\<rparr>))
   \<and> buffer exampleLibrary (Some (Geometry origin)) (Number (Fin 3))
        (Options (emptyObject\<lparr>joinStyle := Str ''''\<rparr>)) =
      buffer exampleLibrary (Some (Geometry origin)) (Number (Fin 3))
        (Options (emptyObject\<lparr>joinStyle := Str ''round''\<rparr>))"
  using
    style_options_checked [of exampleLibrary "Some (Geometry origin)" "Number (Fin 3)"
      "Options (emptyObject\<lparr>endCapStyle := Str ''butt''\<rparr>)" Null emptyObject]
    style_options_checked [of exampleLibrary "Some (Geometry origin)" "Number (Fin 3)"
      "Options (emptyObject\<lparr>joinStyle := Str ''miter''\<rparr>)" "Str ''''" emptyObject]
  by (simp add: emptyObject_def orDefault_def)

text \<open>
  C4, as claimed: a \<open>mitreLimit\<close> that is no number greater than 0 makes \<open>buffer\<close> fail.
  With the mitre limit -1 the call returns a feature, and the buffer operation was given
  -1 as its mitre limit.
\<close>

theorem negative_mitreLimit_accepted:
  "buffer exampleLibrary (Some (Geometry origin)) (Number (Fin 3))
     (Options (emptyObject\<lparr>mitreLimit := Number (Fin (- 1))\<rparr>)) =
   Inr (Some (Feature
     \<lparr>properties = Some [],
      geometry = Some (Geom Polygon
        (Arr [Arr [Arr [Num (Fin 0), Num (Fin 0)], Arr [Num (Fin 3000), Num (Fin (- 1))],
                   Arr [Num (Fin 0), Num (Fin 0)]]]))\<rparr>))"
  by (simp add: example_run)

text \<open>
  C4, amended. \<open>buffer\<close> throws the \<open>mitreLimit\<close> error if and only if the checks before
  it pass and \<open>mitreLimit\<close> is truthy and no number. A falsy \<open>mitreLimit\<close> (absent, 0,
  NaN, \<open>null\<close>) stands for 5. Any other number, a negative one too, passes the checks that
  5 passes, and is the mitre limit that the buffering is run with.
\<close>

theorem mitreLimit_checked:
  "(buffer lib g r oa = Inl MitreLimitNotNumber) =
     (g \<noteq> None \<and> oa \<noteq> NotAnObject \<and>
      (\<exists>n. orDefault (steps (members oa)) (Number (Fin 8)) = Number n) \<and>
      orDefault (endCapStyle (members oa)) (Str ''round'') \<in> {Str ''round'', Str ''flat'', Str ''square''} \<and>
      orDefault (joinStyle (members oa)) (Str ''round'') \<in> {Str ''round'', Str ''mitre'', Str ''bevel''} \<and>
      truthy (mitreLimit (members oa)) \<and>
      (\<forall>n. mitreLimit (members oa) \<noteq> Number n))
   \<and> (\<not> truthy v \<longrightarrow>
        buffer lib g r (Options (opts\<lparr>mitreLimit := v\<rparr>)) =
        buffer lib g r (Options (opts\<lparr>mitreLimit := Number (Fin 5)\<rparr>)))
   \<and> (x \<noteq> 0 \<longrightarrow>
        buffer lib g r (Options (opts\<lparr>mitreLimit := Number (Fin x)\<rparr>)) =
          (case validate g r (Options (opts\<lparr>mitreLimit := Number (Fin 5)\<rparr>)) of
             Inl e \<Rightarrow> Inl e
           | Inr (gj, u, s, c, j, m) \<Rightarrow> bufferByType lib gj r u s c j (Fin x)))"
proof (intro conjI impI)
  show "(buffer lib g r oa = Inl MitreLimitNotNumber) =
     (g \<noteq> None \<and> oa \<noteq> NotAnObject \<and>
      (\<exists>n. orDefault (steps (members oa)) (Number (Fin 8)) = Number n) \<and>
      orDefault (endCapStyle (members oa)) (Str ''round'') \<in> {Str ''round'', Str ''flat'', Str ''square''} \<and>
      orDefault (joinStyle (members oa)) (Str ''round'') \<in> {Str ''round'', Str ''mitre'', Str ''bevel''} \<and>
      truthy (mitreLimit (members oa)) \<and>
      (\<forall>n. mitreLimit (members oa) \<noteq> Number n))"
    by (simp only: buffer_validation_error validate_MitreLimitNotNumber isCheck.simps)
  show "buffer lib g r (Options (opts\<lparr>mitreLimit := v\<rparr>)) =
        buffer lib g r (Options (opts\<lparr>mitreLimit := Number (Fin 5)\<rparr>))" if "\<not> truthy v"
    using that by (intro buffer_cong_validate validate_falsy_mitreLimit)
  show "buffer lib g r (Options (opts\<lparr>mitreLimit := Number (Fin x)\<rparr>)) =
          (case validate g r (Options (opts\<lparr>mitreLimit := Number (Fin 5)\<rparr>)) of
             Inl e \<Rightarrow> Inl e
           | Inr (gj, u, s, c, j, m) \<Rightarrow> bufferByType lib gj r u s c j (Fin x))" if "x \<noteq> 0"
    unfolding buffer_def validate_number_mitreLimit [OF that]
    by (simp split: sum.splits)
qed

theorem mitreLimit_checked_witness:
  "buffer exampleLibrary (Some (Geometry origin)) (Number (Fin 3))
     (Options (emptyObject\<lparr>mitreLimit := Str ''five''\<rparr>)) = Inl MitreLimitNotNumber
   \<and> buffer exampleLibrary (Some (Geometry origin)) (Number (Fin 3))
        (Options (emptyObject\<lparr>mitreLimit := Number NaN\<rparr>)) =
      buffer exampleLibrary (Some (Geometry origin)) (Number (Fin 3))
        (Options (emptyObject\<lparr>mitreLimit := Number (Fin 5)\<rparr>))
   \<and> buffer exampleLibrary (Some (Geometry origin)) (Number (Fin 3))
        (Options (emptyObject\<lparr>mitreLimit := Number (Fin (- 2))\<rparr>)) =
      bufferByType exampleLibrary (Geometry origin) (Number (Fin 3)) (Str ''kilometers'') (Fin 8) 1 1
        (Fin (- 2))"
  using
    mitreLimit_checked [of exampleLibrary "Some (Geometry origin)" "Number (Fin 3)"
      "Options (emptyObject\<lparr>mitreLimit := Str ''five''\<rparr>)" "Number NaN" emptyObject "- 2"]
  by (simp add: emptyObject_def orDefault_def validate_def endCapStyleCode_def joinStyleCode_def)

text \<open>
  C5. The claim is that a call with radius 0 does not throw for any valid input geometry.
  For a top-level geometry collection of one point it throws, at radius 0 as at any other
  radius: the callback hands \<open>helpers.feature\<close> to \<open>bufferFeature\<close>. The radius check
  itself never rejects 0: the checks treat 0 as they treat every other number, and
  "radius is required" is thrown for the radius \<open>undefined\<close> only.
\<close>

theorem zero_radius_GeometryCollection_throws:
  "buffer lib (Some (Geometry (GeometryCollection [Geom Point (Arr [Num (Fin 0), Num (Fin 0)])])))
     (Number (Fin 0)) NoOptions =
     (case center lib HelpersFeature of Inl msg \<Rightarrow> Inl (LibraryError msg) | Inr centre \<Rightarrow> Inl TypeError)
   \<and> (\<exists>e. buffer lib (Some (Geometry (GeometryCollection [Geom Point (Arr [Num (Fin 0), Num (Fin 0)])])))
          (Number (Fin 0)) NoOptions = Inl e)
   \<and> buffer lib g (Number (Fin 0)) oa \<noteq> Inl RadiusRequired
   \<and> validate g (Number (Fin 0)) oa = validate g (Number n) oa
   \<and> (buffer lib g r oa = Inl RadiusRequired) =
       (r = Undefined \<and> buffer lib g Undefined oa = Inl RadiusRequired)"
proof -
  have valid: "validate (Some (Geometry (GeometryCollection [Geom Point (Arr [Num (Fin 0), Num (Fin 0)])])))
      (Number (Fin 0)) NoOptions =
    Inr (Geometry (GeometryCollection [Geom Point (Arr [Num (Fin 0), Num (Fin 0)])]),
         Str ''kilometers'', Fin 8, 1, 1, Fin 5)"
    by (simp add: validate_def emptyObject_def orDefault_def endCapStyleCode_def joinStyleCode_def)
  have zero: "buffer lib g (Number (Fin 0)) oa \<noteq> Inl RadiusRequired"
    by (simp add: buffer_validation_error validate_RadiusRequired)
  have number: "validate g (Number (Fin 0)) oa = validate g (Number n) oa"
    by (simp add: validate_zero_radius)
  have only: "(buffer lib g r oa = Inl RadiusRequired) =
       (r = Undefined \<and> buffer lib g Undefined oa = Inl RadiusRequired)"
    by (auto simp: buffer_validation_error validate_RadiusRequired)
  have thrown: "buffer lib (Some (Geometry (GeometryCollection [Geom Point (Arr [Num (Fin 0), Num (Fin 0)])])))
     (Number (Fin 0)) NoOptions =
     (case center lib HelpersFeature of Inl msg \<Rightarrow> Inl (LibraryError msg) | Inr centre \<Rightarrow> Inl TypeError)"
    by (simp add: buffer_GeometryCollection [OF valid])
  then have "\<exists>e. buffer lib (Some (Geometry (GeometryCollection [Geom Point (Arr [Num (Fin 0), Num (Fin 0)])])))
          (Number (Fin 0)) NoOptions = Inl e"
    by (simp split: sum.splits)
  then show ?thesis using thrown zero number only by blast
qed

text \<open>
  C6, as claimed: on a coordinate array nested in any way, the projection is applied to
  the positions and the depth and the lengths of the arrays are kept. An empty array inside
  an array is itself handed to the projection, and so is an empty array of coordinates:
  with the projection of the examples the array \<open>[[]]\<close>, whose inner array holds nothing,
  becomes an array whose inner array holds two numbers, and unprojecting that does not give
  \<open>[[]]\<close> back.
\<close>

theorem empty_array_projected:
  "projectCoords (Arr [Arr []]) (exampleProjection (Fin 10, Fin 20)) = Arr [Arr [Num NaN, Num NaN]]
   \<and> unprojectCoords (Arr [Arr []]) (exampleProjection (Fin 10, Fin 20)) =
       Arr [Arr [Num NaN, Num NaN]]
   \<and> projectCoords (Arr []) (exampleProjection (Fin 10, Fin 20)) = Arr [Num NaN, Num NaN]
   \<and> unprojectCoords (projectCoords (Arr [Arr []]) (exampleProjection (Fin 10, Fin 20)))
       (exampleProjection (Fin 10, Fin 20)) \<noteq> Arr [Arr []]"
  by (simp add: exampleProjection_def)

text \<open>
  C6, amended. On a coordinates value nested to a depth \<open>d\<close>, that is arrays that are not
  empty down to positions at the depth \<open>d\<close>, \<open>projectCoords\<close> applies the projection to
  every position and keeps the arrays above the positions as they are, and
  \<open>unprojectCoords\<close> does so with the inverse. Where the projection gives positions, the
  projected value is nested to the same depth, and unprojecting it applies the inverse
  after the projection at every position: it gives back the value where the inverse undoes
  the projection. An empty array that stands first in an array is itself handed to the
  projection, and so is an empty array of coordinates. When \<open>bufferFeature\<close> returns a
  feature for a geometry of such coordinates, and the library's \<open>center\<close> has given the
  numbers \<open>x\<close> and \<open>y\<close> for the geometry, then one projection, the one that the library
  makes for the rotation \<open>(- x, - y)\<close>, has been applied to every position of the input,
  whose projected value was read and buffered, and the inverse of that same projection to
  the buffered coordinates, at every position when they are nested to a depth. The centre
  is the one that the library's \<open>center\<close> gives; the module computes none.
\<close>

theorem projection_at_every_position:
  assumes "nested d coordinates"
    and "\<forall>p. isPosition p \<longrightarrow> isPosition (forward proj p)"
  shows "projectCoords coordinates proj = atDepth d (forward proj) coordinates
    \<and> unprojectCoords coordinates proj = atDepth d (invert proj) coordinates
    \<and> nested d (projectCoords coordinates proj)
    \<and> unprojectCoords (projectCoords coordinates proj) proj =
        atDepth d (invert proj \<circ> forward proj) coordinates
    \<and> ((\<forall>p. isPosition p \<longrightarrow> invert proj (forward proj p) = p) \<longrightarrow>
        unprojectCoords (projectCoords coordinates proj) proj = coordinates)
    \<and> projectCoords (Arr []) proj = forward proj (Arr [])
    \<and> unprojectCoords (Arr []) proj = invert proj (Arr [])
    \<and> projectCoords (Arr (Arr [] # rest)) proj =
        Arr (forward proj (Arr []) # map (\<lambda>coord. projectCoords coord proj) rest)
    \<and> unprojectCoords (Arr (Arr [] # rest)) proj =
        Arr (invert proj (Arr []) # map (\<lambda>coord. unprojectCoords coord proj) rest)
    \<and> (geometryOf obj = Some (GeoJSON (Geometry (Geom t coordinates))) \<and>
        center lib (GeoJSON (Geometry (Geom t coordinates))) = Inr (Fin x, Fin y) \<and>
        bufferFeature lib obj r u s c j m = Inr (Some b) \<longrightarrow>
        (\<exists>jsts distance buffered.
           readGeoJSON lib
             (t, atDepth d (forward (geoAzimuthalEquidistant lib (Fin (- x), Fin (- y))))
                   coordinates) = Inr jsts \<and>
           lengthToMeters lib r u = Inr distance \<and>
           bufferOp lib jsts s c j m distance = Inr buffered \<and>
           b = Feature
             \<lparr>properties = Some (propertiesOrEmpty obj),
              geometry = Some (Geom (fst buffered)
                (unprojectCoords (snd buffered)
                   (geoAzimuthalEquidistant lib (Fin (- x), Fin (- y)))))\<rparr> \<and>
           (\<forall>d'. nested d' (snd buffered) \<longrightarrow>
              unprojectCoords (snd buffered) (geoAzimuthalEquidistant lib (Fin (- x), Fin (- y))) =
              atDepth d' (invert (geoAzimuthalEquidistant lib (Fin (- x), Fin (- y))))
                (snd buffered))))"
proof (intro conjI impI)
  show project: "projectCoords coordinates proj = atDepth d (forward proj) coordinates"
    using assms(1) by (rule projectCoords_atDepth)
  show "unprojectCoords coordinates proj = atDepth d (invert proj) coordinates"
    using assms(1) by (rule unprojectCoords_atDepth)
  show projected: "nested d (projectCoords coordinates proj)"
    unfolding project using assms by (intro nested_atDepth) auto
  show both: "unprojectCoords (projectCoords coordinates proj) proj =
        atDepth d (invert proj \<circ> forward proj) coordinates"
    using unprojectCoords_atDepth [OF projected] by (simp add: project atDepth_comp)
  show "unprojectCoords (projectCoords coordinates proj) proj = coordinates"
    if "\<forall>p. isPosition p \<longrightarrow> invert proj (forward proj p) = p"
    unfolding both using assms(1) that by (intro atDepth_identity) auto
  show "projectCoords (Arr []) proj = forward proj (Arr [])" by simp
  show "unprojectCoords (Arr []) proj = invert proj (Arr [])" by simp
  show "projectCoords (Arr (Arr [] # rest)) proj =
        Arr (forward proj (Arr []) # map (\<lambda>coord. projectCoords coord proj) rest)"
    by simp
  show "unprojectCoords (Arr (Arr [] # rest)) proj =
        Arr (invert proj (Arr []) # map (\<lambda>coord. unprojectCoords coord proj) rest)"
    by simp
  let ?P = "geoAzimuthalEquidistant lib (Fin (- x), Fin (- y))"
  show "\<exists>jsts distance buffered.
           readGeoJSON lib (t, atDepth d (forward ?P) coordinates) = Inr jsts \<and>
           lengthToMeters lib r u = Inr distance \<and>
           bufferOp lib jsts s c j m distance = Inr buffered \<and>
           b = Feature
             \<lparr>properties = Some (propertiesOrEmpty obj),
              geometry = Some (Geom (fst buffered) (unprojectCoords (snd buffered) ?P))\<rparr> \<and>
           (\<forall>d'. nested d' (snd buffered) \<longrightarrow>
              unprojectCoords (snd buffered) ?P = atDepth d' (invert ?P) (snd buffered))"
    if run: "geometryOf obj = Some (GeoJSON (Geometry (Geom t coordinates))) \<and>
        center lib (GeoJSON (Geometry (Geom t coordinates))) = Inr (Fin x, Fin y) \<and>
        bufferFeature lib obj r u s c j m = Inr (Some b)"
  proof -
    have projection: "defineProjection lib (GeoJSON (Geometry (Geom t coordinates))) = Inr ?P"
      using run by (simp add: defineProjection_def)
    have input: "projectCoords coordinates ?P = atDepth d (forward ?P) coordinates"
      using assms(1) by (rule projectCoords_atDepth)
    have "\<exists>jsts distance buffered.
           readGeoJSON lib (t, projectCoords coordinates ?P) = Inr jsts \<and>
           lengthToMeters lib r u = Inr distance \<and>
           bufferOp lib jsts s c j m distance = Inr buffered \<and>
           b = Feature
             \<lparr>properties = Some (propertiesOrEmpty obj),
              geometry = Some (Geom (fst buffered) (unprojectCoords (snd buffered) ?P))\<rparr>"
      using run projection
      by (auto simp: bufferFeature_primitive helpers_feature_def Let_def
            split: sum.splits if_splits)
    then show ?thesis
      unfolding input using unprojectCoords_atDepth by blast
  qed
qed

theorem projection_at_every_position_witness:
  "projectCoords
     (Arr [Arr [Arr [Num (Fin 10), Num (Fin 20)], Arr [Num (Fin 11), Num (Fin 20)],
                Arr [Num (Fin 11), Num (Fin 21)], Arr [Num (Fin 10), Num (Fin 20)]]])
     (exampleProjection (Fin (- 10), Fin (- 20))) =
   Arr [Arr [Arr [Num (Fin 0), Num (Fin 10)], Arr [Num (Fin 1), Num (Fin 10)],
             Arr [Num (Fin 1), Num (Fin 11)], Arr [Num (Fin 0), Num (Fin 10)]]]
   \<and> unprojectCoords
       (Arr [Arr [Arr [Num (Fin 0), Num (Fin 10)], Arr [Num (Fin 1), Num (Fin 10)],
                  Arr [Num (Fin 1), Num (Fin 11)], Arr [Num (Fin 0), Num (Fin 10)]]])
       (exampleProjection (Fin (- 10), Fin (- 20))) =
     Arr [Arr [Arr [Num (Fin 10), Num (Fin 20)], Arr [Num (Fin 11), Num (Fin 20)],
               Arr [Num (Fin 11), Num (Fin 21)], Arr [Num (Fin 10), Num (Fin 20)]]]
   \<and> bufferFeature exampleLibrary (GeoJSON (Geometry place)) (Number (Fin 3)) (Str ''kilometers'')
       (Fin 8) 1 1 (Fin 5) =
     Inr (Some (Feature \<lparr>properties = Some [], geometry = Some (Geom Polygon
       (Arr [Arr [Arr [Num (Fin 10), Num (Fin 20)], Arr [Num (Fin 3010), Num (Fin 15)],
                  Arr [Num (Fin 10), Num (Fin 20)]]]))\<rparr>))"
proof -
  let ?ring = "Arr [Arr [Arr [Num (Fin 10), Num (Fin 20)], Arr [Num (Fin 11), Num (Fin 20)],
                Arr [Num (Fin 11), Num (Fin 21)], Arr [Num (Fin 10), Num (Fin 20)]]]"
  let ?flat = "Arr [Arr [Arr [Num (Fin 0), Num (Fin 10)], Arr [Num (Fin 1), Num (Fin 10)],
                Arr [Num (Fin 1), Num (Fin 11)], Arr [Num (Fin 0), Num (Fin 10)]]]"
  let ?proj = "exampleProjection (Fin (- 10), Fin (- 20))"
  let ?point = "Arr [Num (Fin 10), Num (Fin 20)]"
  have depth: "nested 2 ?ring" by (simp add: numeral_2_eq_2)
  have positions: "\<forall>p. isPosition p \<longrightarrow> isPosition (forward ?proj p)"
    by (simp add: exampleProjection_def shiftBy_position)
  have inverse: "\<forall>p. isPosition p \<longrightarrow> invert ?proj (forward ?proj p) = p"
    using shiftBy_inverse [of _ "- 10"] by (simp add: exampleProjection_def)
  note ring = projection_at_every_position [OF depth positions]
  have projected: "projectCoords ?ring ?proj = ?flat"
    using ring by (simp add: exampleProjection_def numeral_2_eq_2)
  have "unprojectCoords (projectCoords ?ring ?proj) ?proj = ?ring"
    using ring inverse by blast
  then have unprojected: "unprojectCoords ?flat ?proj = ?ring"
    unfolding projected .
  have point: "nested 0 ?point" by simp
  have located: "geometryOf (GeoJSON (Geometry place)) = Some (GeoJSON (Geometry (Geom Point ?point)))"
    by (simp add: place_def)
  have centre: "center exampleLibrary (GeoJSON (Geometry (Geom Point ?point))) = Inr (Fin 10, Fin 20)"
    by (simp add: exampleLibrary_def exampleCenter_def)
  have "\<exists>b. bufferFeature exampleLibrary (GeoJSON (Geometry place)) (Number (Fin 3))
      (Str ''kilometers'') (Fin 8) 1 1 (Fin 5) = Inr (Some b)"
    by (simp add: place_def bufferFeature_primitive exampleLibrary_def exampleCenter_def
          exampleLengthToMeters_def exampleBufferOp_def exampleProjection_def
          defineProjection_def)
  then obtain b where b: "bufferFeature exampleLibrary (GeoJSON (Geometry place)) (Number (Fin 3))
      (Str ''kilometers'') (Fin 8) 1 1 (Fin 5) = Inr (Some b)"
    by blast
  have "\<exists>jsts distance buffered.
      readGeoJSON exampleLibrary
        (Point, atDepth 0 (forward (geoAzimuthalEquidistant exampleLibrary (Fin (- 10), Fin (- 20))))
           ?point) = Inr jsts \<and>
      lengthToMeters exampleLibrary (Number (Fin 3)) (Str ''kilometers'') = Inr distance \<and>
      bufferOp exampleLibrary jsts (Fin 8) 1 1 (Fin 5) distance = Inr buffered \<and>
      b = Feature
        \<lparr>properties = Some (propertiesOrEmpty (GeoJSON (Geometry place))),
         geometry = Some (Geom (fst buffered)
           (unprojectCoords (snd buffered)
              (geoAzimuthalEquidistant exampleLibrary (Fin (- 10), Fin (- 20)))))\<rparr>"
    using projection_at_every_position [OF point positions,
        where obj = "GeoJSON (Geometry place)" and t = Point and lib = exampleLibrary
          and x = 10 and y = 20 and r = "Number (Fin 3)" and u = "Str ''kilometers''"
          and s = "Fin 8" and c = 1 and j = 1 and m = "Fin 5" and b = b]
      located centre b
    by blast
  then have "b = Feature \<lparr>properties = Some [], geometry = Some (Geom Polygon
       (Arr [Arr [?point, Arr [Num (Fin 3010), Num (Fin 15)], ?point]]))\<rparr>"
    by (auto simp: exampleLibrary_def exampleLengthToMeters_def exampleBufferOp_def
          exampleProjection_def place_def)
  then show ?thesis using projected unprojected b by simp
qed

text \<open>
  C8. A falsy \<open>steps\<close> or \<open>mitreLimit\<close> is replaced by its default before the checks:
  with \<open>steps\<close> 0 the call is the call with \<open>steps\<close> 8, and does not throw the error
  "steps must be greater than 0"; with \<open>mitreLimit\<close> 0 it is the call with \<open>mitreLimit\<close>
  5. That error is thrown only for a \<open>steps\<close> option that is a negative number.
\<close>

theorem falsy_numbers_defaulted:
  "(\<not> truthy v \<longrightarrow>
      buffer lib g r (Options (opts\<lparr>steps := v\<rparr>)) =
      buffer lib g r (Options (opts\<lparr>steps := Number (Fin 8)\<rparr>)))
   \<and> buffer lib g r (Options (opts\<lparr>steps := Number (Fin 0)\<rparr>)) =
       buffer lib g r (Options (opts\<lparr>steps := Number (Fin 8)\<rparr>))
   \<and> buffer lib g r (Options (opts\<lparr>steps := Number (Fin 0)\<rparr>)) \<noteq> Inl StepsNotPositive
   \<and> buffer lib g r (Options (opts\<lparr>mitreLimit := Number (Fin 0)\<rparr>)) =
       buffer lib g r (Options (opts\<lparr>mitreLimit := Number (Fin 5)\<rparr>))
   \<and> (buffer lib g r oa = Inl StepsNotPositive \<longrightarrow>
        (\<exists>n. steps (members oa) = Number n \<and> (n = NegInf \<or> (\<exists>x<0. n = Fin x))))"
proof (intro conjI impI)
  show "buffer lib g r (Options (opts\<lparr>steps := v\<rparr>)) =
        buffer lib g r (Options (opts\<lparr>steps := Number (Fin 8)\<rparr>))" if "\<not> truthy v"
    using that by (intro buffer_cong_validate validate_falsy_steps)
  show zero: "buffer lib g r (Options (opts\<lparr>steps := Number (Fin 0)\<rparr>)) =
        buffer lib g r (Options (opts\<lparr>steps := Number (Fin 8)\<rparr>))"
    by (intro buffer_cong_validate validate_falsy_steps) simp
  have "validate g r (Options (opts\<lparr>steps := Number (Fin 8)\<rparr>)) \<noteq> Inl StepsNotPositive"
    by (simp add: validate_StepsNotPositive)
  then show "buffer lib g r (Options (opts\<lparr>steps := Number (Fin 0)\<rparr>)) \<noteq> Inl StepsNotPositive"
    by (simp add: zero buffer_validation_error)
  show "buffer lib g r (Options (opts\<lparr>mitreLimit := Number (Fin 0)\<rparr>)) =
        buffer lib g r (Options (opts\<lparr>mitreLimit := Number (Fin 5)\<rparr>))"
    by (intro buffer_cong_validate validate_falsy_mitreLimit) simp
  show "\<exists>n. steps (members oa) = Number n \<and> (n = NegInf \<or> (\<exists>x<0. n = Fin x))"
    if "buffer lib g r oa = Inl StepsNotPositive"
    using that by (simp add: buffer_validation_error validate_StepsNotPositive)
qed

theorem falsy_numbers_defaulted_witness:
  "buffer exampleLibrary (Some (Geometry origin)) (Number (Fin 3))
     (Options (emptyObject\<lparr>steps := Number NaN\<rparr>)) =
   buffer exampleLibrary (Some (Geometry origin)) (Number (Fin 3))
     (Options (emptyObject\<lparr>steps := Number (Fin 8)\<rparr>))
   \<and> buffer exampleLibrary (Some (Geometry origin)) (Number (Fin 3))
        (Options (emptyObject\<lparr>steps := Number (Fin (- 1))\<rparr>)) = Inl StepsNotPositive
   \<and> (\<exists>n. steps (members (Options (emptyObject\<lparr>steps := Number (Fin (- 1))\<rparr>))) = Number n \<and>
          (n = NegInf \<or> (\<exists>x<0. n = Fin x)))"
proof -
  have thrown: "buffer exampleLibrary (Some (Geometry origin)) (Number (Fin 3))
        (Options (emptyObject\<lparr>steps := Number (Fin (- 1))\<rparr>)) = Inl StepsNotPositive"
    by (simp add: buffer_def validate_def emptyObject_def orDefault_def endCapStyleCode_def
          joinStyleCode_def)
  show ?thesis
    using thrown
      falsy_numbers_defaulted [of "Number NaN" exampleLibrary "Some (Geometry origin)" "Number (Fin 3)"
        emptyObject "Options (emptyObject\<lparr>steps := Number (Fin (- 1))\<rparr>)"]
    by simp
qed

text \<open>
  C9, as claimed: \<open>bufferFeature\<close> returns \<open>undefined\<close> if and only if the first
  coordinate value reached by descending first elements is NaN. A point buffered at a
  negative radius gives the empty polygon with the coordinates \<open>[[]]\<close>: no coordinate in
  them is NaN, the descent ends at the empty array, and the feature is dropped.
\<close>

theorem dropped_without_NaN:
  "bufferFeature exampleLibrary (GeoJSON (Geometry place)) (Number (Fin (- 3))) (Str ''kilometers'')
     (Fin 8) 1 1 (Fin 5) = Inr None
   \<and> bufferOp exampleLibrary (Point, Arr [Num (Fin 0), Num (Fin 10)]) (Fin 8) 1 1 (Fin 5)
        (Fin (- 3000)) = Inr (Polygon, Arr [Arr []])
   \<and> firstCoordinate (Arr [Arr []]) = None
   \<and> \<not> hasNaN (Arr [Arr []])"
  by (simp add: example_run)

text \<open>
  C9, amended. For an input that is no geometry collection and library calls that return,
  \<open>bufferFeature\<close> returns \<open>undefined\<close> if and only if the first coordinate value
  reached by descending first elements of the buffered coordinates is NaN or there is no
  such value, the descent ending at an empty array (\<open>coords[0]\<close> is \<open>undefined\<close> there,
  and \<open>isNaN(undefined)\<close> holds). Where that value is a number other than NaN the feature
  is returned, with NaN at any other place or not, and its coordinates are the buffered
  ones with the inverse of the projection applied at every position.
\<close>

theorem only_first_coordinate_inspected:
  assumes "geometryOf obj = Some (GeoJSON (Geometry (Geom t cs)))"
    and "defineProjection lib (GeoJSON (Geometry (Geom t cs))) = Inr projection"
    and "readGeoJSON lib (t, projectCoords cs projection) = Inr jsts"
    and "lengthToMeters lib r u = Inr distance"
    and "bufferOp lib jsts s c j m distance = Inr buffered"
  shows "(bufferFeature lib obj r u s c j m = Inr None) =
           (firstCoordinate (snd buffered) = Some NaN \<or> firstCoordinate (snd buffered) = None)
    \<and> (firstCoordinate (snd buffered) = Some n \<and> n \<noteq> NaN \<longrightarrow>
         bufferFeature lib obj r u s c j m =
           Inr (Some (Feature
             \<lparr>properties = Some (propertiesOrEmpty obj),
              geometry = Some (Geom (fst buffered) (unprojectCoords (snd buffered) projection))\<rparr>)))
    \<and> (firstCoordinate (snd buffered) = Some n \<and> n \<noteq> NaN \<and> nested d (snd buffered) \<longrightarrow>
         bufferFeature lib obj r u s c j m =
           Inr (Some (Feature
             \<lparr>properties = Some (propertiesOrEmpty obj),
              geometry = Some (Geom (fst buffered)
                (atDepth d (invert projection) (snd buffered)))\<rparr>)))"
proof -
  note returned = bufferFeature_returned [OF assms]
  show ?thesis
    by (auto simp: returned coordsIsNaN_iff unprojectCoords_atDepth)
qed

theorem only_first_coordinate_inspected_witness:
  "bufferFeature exampleLibrary (GeoJSON (Geometry place)) (Number (Fin 3)) (Str ''kilometers'')
     (Fin 8) 1 1 NaN =
   Inr (Some (Feature
     \<lparr>properties = Some [],
      geometry = Some (Geom Polygon
        (Arr [Arr [Arr [Num (Fin 10), Num (Fin 20)], Arr [Num (Fin 3010), Num NaN],
                   Arr [Num (Fin 10), Num (Fin 20)]]]))\<rparr>))
   \<and> hasNaN (Arr [Arr [Arr [Num (Fin 0), Num (Fin 10)], Arr [Num (Fin 3000), Num NaN],
                        Arr [Num (Fin 0), Num (Fin 10)]]])
   \<and> bufferFeature exampleLibrary (GeoJSON (Geometry place)) (Number (Fin (- 3))) (Str ''kilometers'')
        (Fin 8) 1 1 (Fin 5) = Inr None
   \<and> bufferFeature exampleLibrary (GeoJSON (Geometry (Geom Point (Arr [Num NaN, Num (Fin 0)]))))
        (Number (Fin 3)) (Str ''kilometers'') (Fin 8) 1 1 (Fin 5) = Inr None"
proof -
  let ?P = "\<lparr>forward = shiftBy (- 10), invert = shiftBy 10\<rparr>"
  let ?buffered = "(Polygon, Arr [Arr [Arr [Num (Fin 0), Num (Fin 10)], Arr [Num (Fin 3000), Num NaN],
                        Arr [Num (Fin 0), Num (Fin 10)]]])"
  have kept: "bufferFeature exampleLibrary (GeoJSON (Geometry place)) (Number (Fin 3))
      (Str ''kilometers'') (Fin 8) 1 1 NaN =
    Inr (Some (Feature
      \<lparr>properties = Some (propertiesOrEmpty (GeoJSON (Geometry place))),
       geometry = Some (Geom (fst ?buffered) (atDepth 2 (invert ?P) (snd ?buffered)))\<rparr>))"
    using only_first_coordinate_inspected [of "GeoJSON (Geometry place)" Point
        "Arr [Num (Fin 10), Num (Fin 20)]" exampleLibrary ?P
        "(Point, Arr [Num (Fin 0), Num (Fin 10)])" "Number (Fin 3)" "Str ''kilometers''" "Fin 3000"
        "Fin 8" 1 1 NaN ?buffered "Fin 0" 2]
    by (simp add: place_def exampleLibrary_def exampleCenter_def exampleLengthToMeters_def
          exampleBufferOp_def exampleProjection_def defineProjection_def numeral_2_eq_2)
  have none: "bufferFeature exampleLibrary (GeoJSON (Geometry place)) (Number (Fin (- 3)))
      (Str ''kilometers'') (Fin 8) 1 1 (Fin 5) = Inr None"
    using only_first_coordinate_inspected [of "GeoJSON (Geometry place)" Point
        "Arr [Num (Fin 10), Num (Fin 20)]" exampleLibrary ?P
        "(Point, Arr [Num (Fin 0), Num (Fin 10)])" "Number (Fin (- 3))" "Str ''kilometers''"
        "Fin (- 3000)" "Fin 8" 1 1 "Fin 5" "(Polygon, Arr [Arr []])"]
    by (simp add: place_def exampleLibrary_def exampleCenter_def exampleLengthToMeters_def
          exampleBufferOp_def exampleProjection_def defineProjection_def)
  have first: "bufferFeature exampleLibrary (GeoJSON (Geometry (Geom Point (Arr [Num NaN, Num (Fin 0)]))))
      (Number (Fin 3)) (Str ''kilometers'') (Fin 8) 1 1 (Fin 5) = Inr None"
    using only_first_coordinate_inspected [of "GeoJSON (Geometry (Geom Point (Arr [Num NaN, Num (Fin 0)])))"
        Point "Arr [Num NaN, Num (Fin 0)]" exampleLibrary "\<lparr>forward = shiftBy 0, invert = shiftBy 0\<rparr>"
        "(Point, Arr [Num NaN, Num (Fin 0)])" "Number (Fin 3)" "Str ''kilometers''"
        "Fin 3000" "Fin 8" 1 1 "Fin 5"
        "(Polygon, Arr [Arr [Arr [Num NaN, Num (Fin 0)], Arr [Num (Fin 3000), Num (Fin 5)],
                             Arr [Num NaN, Num (Fin 0)]]])"]
    by (simp add: exampleLibrary_def exampleCenter_def exampleLengthToMeters_def
          exampleBufferOp_def exampleProjection_def defineProjection_def)
  show ?thesis using kept none first by (simp add: place_def numeral_2_eq_2)
qed

text \<open>
  C10, as claimed: every feature whose buffering does not degenerate keeps its properties.
  A feature whose geometry is a geometry collection is buffered to a feature collection,
  and the feature in it has empty properties.
\<close>

theorem collection_feature_properties_dropped:
  "buffer exampleLibrary
     (Some (Feature \<lparr>properties = Some [(''name'', Str ''a'')],
                     geometry = Some (GeometryCollection [origin])\<rparr>))
     (Number (Fin 3)) NoOptions =
   Inr (Some (FeatureCollection
     [Feature
        \<lparr>properties = Some [],
         geometry = Some (Geom Polygon
           (Arr [Arr [Arr [Num (Fin 0), Num (Fin 0)], Arr [Num (Fin 3000), Num (Fin 5)],
                      Arr [Num (Fin 0), Num (Fin 0)]]]))\<rparr>]))"
  by (simp add: example_run)

text \<open>
  C10, amended. For a feature whose geometry is no geometry collection, the feature that
  \<open>buffer\<close> returns has the properties of the input, and empty properties when those are
  \<open>null\<close>. For a geometry that is no collection, it has empty properties. For a feature
  whose geometry is a geometry collection, \<open>buffer\<close> returns a feature collection, and
  every feature in it has empty properties.
\<close>

theorem properties_carried:
  "(geometry f = Some (Geom t cs) \<and> buffer lib (Some (Feature f)) r oa = Inr (Some b) \<longrightarrow>
      (\<exists>g'. b = Feature
         \<lparr>properties = Some (case properties f of Some p \<Rightarrow> p | None \<Rightarrow> []), geometry = Some g'\<rparr>))
   \<and> (buffer lib (Some (Geometry (Geom t cs))) r oa = Inr (Some b) \<longrightarrow>
      (\<exists>g'. b = Feature \<lparr>properties = Some [], geometry = Some g'\<rparr>))
   \<and> (geometry f = Some (GeometryCollection gs) \<and>
       buffer lib (Some (Feature f)) r oa = Inr (Some b) \<longrightarrow>
      (\<exists>fs. b = FeatureCollection fs \<and> list_all emptyProperties fs))"
proof (intro conjI impI)
  show "\<exists>g'. b = Feature
         \<lparr>properties = Some (case properties f of Some p \<Rightarrow> p | None \<Rightarrow> []), geometry = Some g'\<rparr>"
    if h: "geometry f = Some (Geom t cs) \<and> buffer lib (Some (Feature f)) r oa = Inr (Some b)"
  proof -
    obtain u s c j m where "bufferFeature lib (GeoJSON (Feature f)) r u s c j m = Inr (Some b)"
      using h buffer_Feature by blast
    then show ?thesis
      using h bufferFeature_primitive_Some [of "GeoJSON (Feature f)" t cs lib r u s c j m b] by auto
  qed
  show "\<exists>g'. b = Feature \<lparr>properties = Some [], geometry = Some g'\<rparr>"
    if h: "buffer lib (Some (Geometry (Geom t cs))) r oa = Inr (Some b)"
  proof -
    obtain u s c j m where "bufferFeature lib (GeoJSON (Geometry (Geom t cs))) r u s c j m = Inr (Some b)"
      using h buffer_primitive_Geometry by blast
    then show ?thesis
      using bufferFeature_primitive_Some [of "GeoJSON (Geometry (Geom t cs))" t cs lib r u s c j m b]
      by auto
  qed
  show "\<exists>fs. b = FeatureCollection fs \<and> list_all emptyProperties fs"
    if h: "geometry f = Some (GeometryCollection gs) \<and>
           buffer lib (Some (Feature f)) r oa = Inr (Some b)"
  proof -
    obtain u s c j m where "bufferFeature lib (GeoJSON (Feature f)) r u s c j m = Inr (Some b)"
      using h buffer_Feature by blast
    then show ?thesis
      using h bufferFeature_collection_emptyProperties [of "GeoJSON (Feature f)" gs] by simp
  qed
qed

theorem properties_carried_witness:
  "buffer exampleLibrary
     (Some (Feature \<lparr>properties = Some [(''name'', Str ''a'')], geometry = Some origin\<rparr>))
     (Number (Fin 3)) NoOptions =
   Inr (Some (Feature \<lparr>properties = Some [(''name'', Str ''a'')],
         geometry = Some (Geom Polygon
           (Arr [Arr [Arr [Num (Fin 0), Num (Fin 0)], Arr [Num (Fin 3000), Num (Fin 5)],
                      Arr [Num (Fin 0), Num (Fin 0)]]]))\<rparr>))
   \<and> buffer exampleLibrary (Some (Geometry origin)) (Number (Fin 3)) NoOptions =
     Inr (Some (Feature \<lparr>properties = Some [],
         geometry = Some (Geom Polygon
           (Arr [Arr [Arr [Num (Fin 0), Num (Fin 0)], Arr [Num (Fin 3000), Num (Fin 5)],
                      Arr [Num (Fin 0), Num (Fin 0)]]]))\<rparr>))
   \<and> buffer exampleLibrary
       (Some (Feature \<lparr>properties = Some [(''name'', Str ''a'')],
                       geometry = Some (GeometryCollection [origin])\<rparr>))
       (Number (Fin 3)) NoOptions =
     Inr (Some (FeatureCollection [Feature \<lparr>properties = Some [],
         geometry = Some (Geom Polygon
           (Arr [Arr [Arr [Num (Fin 0), Num (Fin 0)], Arr [Num (Fin 3000), Num (Fin 5)],
                      Arr [Num (Fin 0), Num (Fin 0)]]]))\<rparr>]))
   \<and> list_all emptyProperties [Feature \<lparr>properties = Some [],
         geometry = Some (Geom Polygon
           (Arr [Arr [Arr [Num (Fin 0), Num (Fin 0)], Arr [Num (Fin 3000), Num (Fin 5)],
                      Arr [Num (Fin 0), Num (Fin 0)]]]))\<rparr>]"
proof -
  let ?ring = "Some (Geom Polygon
      (Arr [Arr [Arr [Num (Fin 0), Num (Fin 0)], Arr [Num (Fin 3000), Num (Fin 5)],
                 Arr [Num (Fin 0), Num (Fin 0)]]]))"
  let ?named = "Some [(''name'', Str ''a'')]"
  have feature: "buffer exampleLibrary (Some (Feature \<lparr>properties = ?named, geometry = Some origin\<rparr>))
        (Number (Fin 3)) NoOptions = Inr (Some (Feature \<lparr>properties = ?named, geometry = ?ring\<rparr>))"
    by (simp add: example_run)
  have bare: "buffer exampleLibrary (Some (Geometry origin)) (Number (Fin 3)) NoOptions =
        Inr (Some (Feature \<lparr>properties = Some [], geometry = ?ring\<rparr>))"
    by (simp add: example_run)
  have collection: "buffer exampleLibrary
        (Some (Feature \<lparr>properties = ?named, geometry = Some (GeometryCollection [origin])\<rparr>))
        (Number (Fin 3)) NoOptions =
      Inr (Some (FeatureCollection [Feature \<lparr>properties = Some [], geometry = ?ring\<rparr>]))"
    by (simp add: example_run)
  show ?thesis
    using feature bare collection
      properties_carried [of "\<lparr>properties = ?named, geometry = Some origin\<rparr>" Point
        "Arr [Num (Fin 0), Num (Fin 0)]" exampleLibrary "Number (Fin 3)" NoOptions
        "Feature \<lparr>properties = ?named, geometry = ?ring\<rparr>" "[]"]
      properties_carried [of "\<lparr>properties = ?named, geometry = Some origin\<rparr>" Point
        "Arr [Num (Fin 0), Num (Fin 0)]" exampleLibrary "Number (Fin 3)" NoOptions
        "Feature \<lparr>properties = Some [], geometry = ?ring\<rparr>" "[]"]
      properties_carried [of "\<lparr>properties = ?named, geometry = Some (GeometryCollection [origin])\<rparr>"
        Point "Arr [Num (Fin 0), Num (Fin 0)]" exampleLibrary "Number (Fin 3)" NoOptions
        "FeatureCollection [Feature \<lparr>properties = Some [], geometry = ?ring\<rparr>]" "[origin]"]
    by (simp add: origin_def)
qed

end
